theory Spec2Isabelle
  imports Main "HOL-Library.Sublist"
begin

section \<open>The documentation loader of pydoc-markdown (pydocmd/loader.py)\<close>

text \<open>
  The loader resolves an identifier to a live Python object and its scope, and fills a
  \<^verbatim>\<open>Section\<close> with a title, the dedented docstring and, for callables, a signature block.
  Python objects are seen by the loader only through reflection, so an object is modelled
  by the answers of the reflective queries the loader makes.
\<close>

subsection \<open>Errors\<close>

text \<open>
  Every exception the loader can raise or let through. \<open>AttributeError a\<close> is a failed
  lookup of attribute \<open>a\<close>; \<open>TypeError\<close> is what \<^verbatim>\<open>textwrap.dedent\<close> raises on a value that is
  not a string; \<open>Raised e\<close> is an exception of a collaborator (the resolver, the
  \<^verbatim>\<open>inspect\<close> module), passed on unchanged.
\<close>

datatype pyerror = AssertionError | AttributeError string | IndexError | TypeError | Raised string

subsection \<open>Objects, sections and the reflective environment\<close>

text \<open>
  What \<^verbatim>\<open>inspect.getargspec\<close> returns; \<open>varkw\<close> is its field \<^verbatim>\<open>keywords\<close>. A default
  value is held by its \<^verbatim>\<open>repr()\<close>, which is all the loader uses of it (\<^verbatim>\<open>{!r}\<close>).
\<close>

record argspec =
  args :: "string list"
  varargs :: "string option"
  varkw :: "string option"
  defaults :: "string list option"

text \<open>
  The value of a \<^verbatim>\<open>__doc__\<close> attribute: a string, or something else, of which the loader
  uses only the truth value (\<^verbatim>\<open>bool(v)\<close>). The docstring of a class of the standard
  library can be a descriptor, which is truthy and not a string.
\<close>

datatype pyvalue = Str string | NonStr bool

text \<open>
  What \<^verbatim>\<open>inspect.signature\<close> returns, as far as \<^verbatim>\<open>str\<close> reads it: the parameters in order,
  each with its name, its kind, the \<^verbatim>\<open>repr()\<close> of its default and the text of its annotation
  when it has them, and the text of the return annotation when there is one.
\<close>

datatype param_kind =
  POSITIONAL_ONLY | POSITIONAL_OR_KEYWORD | VAR_POSITIONAL | KEYWORD_ONLY | VAR_KEYWORD

record parameter =
  pname :: string
  pkind :: param_kind
  pdefault :: "string option"
  pannotation :: "string option"

record py_signature =
  parameters :: "parameter list"
  return_annotation :: "string option"

text \<open>
  A Python object as the loader observes it:
  \<^item> \<open>name_attr\<close>, \<open>module_attr\<close>: the attributes \<^verbatim>\<open>__name__\<close> and \<^verbatim>\<open>__module__\<close>, \<open>None\<close> when
    the object has no such attribute;
  \<^item> \<open>doc_attr\<close>: \<^verbatim>\<open>getattr(obj, '__doc__', None)\<close>, \<open>None\<close> when absent or \<^verbatim>\<open>None\<close>, a string
    or another value otherwise;
  \<^item> \<open>has_fields\<close>: \<^verbatim>\<open>hasattr(o, "_fields")\<close>;
  \<^item> \<open>asdict_attr\<close>: \<open>None\<close> when there is no attribute \<^verbatim>\<open>_asdict\<close>, else \<open>Some c\<close> with
    \<open>c\<close> the value of \<^verbatim>\<open>callable(o._asdict)\<close>;
  \<^item> \<open>is_class\<close>: \<^verbatim>\<open>inspect.isclass(o)\<close>; \<open>is_callable\<close>: \<^verbatim>\<open>callable(o)\<close>;
    \<open>truthy\<close>: \<^verbatim>\<open>bool(o)\<close>.
  Python's \<^verbatim>\<open>None\<close> is an object like any other (no attributes, not a class, not
  callable, not truthy). \<^verbatim>\<open>__name__\<close> and \<^verbatim>\<open>__module__\<close> are strings when they are there.
\<close>

record pyobj =
  name_attr :: "string option"
  doc_attr :: "pyvalue option"
  module_attr :: "string option"
  has_fields :: bool
  asdict_attr :: "bool option"
  is_class :: bool
  is_callable :: bool
  truthy :: bool

text \<open>
  The \<^verbatim>\<open>inspect\<close> module of the running interpreter. \<open>signature\<close> is \<open>None\<close> when the
  module has no attribute \<^verbatim>\<open>signature\<close> (Python 2); otherwise it gives, for an object,
  what \<^verbatim>\<open>inspect.signature(o)\<close> returns or the exception that call raises.
\<close>

record inspect =
  signature :: "(pyobj \<Rightarrow> pyerror + py_signature) option"
  getargspec :: "pyobj \<Rightarrow> pyerror + argspec"

text \<open>
  \<^verbatim>\<open>Section\<close> (pydocmd/document.py): the identifier is given by the caller, the other three
  attributes are written by the loader. \<open>None\<close> is Python's \<^verbatim>\<open>None\<close>. The loader context is
  the dictionary \<^verbatim>\<open>{'obj': obj, 'scope': scope}\<close>.
\<close>

record Section =
  "identifier" :: "string option"
  title :: "string option"
  content :: "string option"
  loader_context :: "(string \<times> pyobj) list option"

text \<open>
  \<^verbatim>\<open>import_object_with_scope\<close> (pydocmd/imp.py) is the resolver: it is a parameter of the
  model, a function from the identifier to the pair (object, scope) or to the exception
  it raises.
\<close>

type_synonym resolver = "string \<Rightarrow> pyerror + (pyobj \<times> pyobj)"

subsection \<open>String operations of Python\<close>

text \<open>\<^verbatim>\<open>sep.join(parts)\<close>.\<close>

fun join :: "string \<Rightarrow> string list \<Rightarrow> string" where
  "join sep [] = []"
| "join sep [x] = x"
| "join sep (x # y # ys) = x @ sep @ join sep (y # ys)"

text \<open>\<^verbatim>\<open>s.split(c)\<close> for a one-character separator: the pieces between the separators.\<close>

fun split :: "char \<Rightarrow> string \<Rightarrow> string list" where
  "split c [] = [[]]"
| "split c (x # xs) =
     (if x = c then [] # split c xs
      else (case split c xs of [] \<Rightarrow> [[x]] | p # ps \<Rightarrow> (x # p) # ps))"

text \<open>
  \<^verbatim>\<open>s.rsplit(c, 1)\<close>: at most one split, at the last occurrence of the separator. The
  string is scanned from its end: \<open>rsplit1_rev\<close> walks the reversed string and collects
  the reversed tail.
\<close>

fun rsplit1_rev :: "char \<Rightarrow> string \<Rightarrow> string \<Rightarrow> string list" where
  "rsplit1_rev c [] acc = [acc]"
| "rsplit1_rev c (x # xs) acc =
     (if x = c then [rev xs, acc] else rsplit1_rev c xs (x # acc))"

definition rsplit1 :: "char \<Rightarrow> string \<Rightarrow> string list" where
  "rsplit1 c s = rsplit1_rev c (rev s) []"

text \<open>\<^verbatim>\<open>xs[1]\<close>, which raises \<^verbatim>\<open>IndexError\<close> on a list shorter than two.\<close>

fun index1 :: "'a list \<Rightarrow> pyerror + 'a" where
  "index1 (x # y # ys) = Inr y"
| "index1 xs = Inl IndexError"

text \<open>\<^verbatim>\<open>s.startswith(p)\<close> and \<^verbatim>\<open>sub in s\<close>.\<close>

fun startswith :: "string \<Rightarrow> string \<Rightarrow> bool" where
  "startswith s [] = True"
| "startswith [] (p # ps) = False"
| "startswith (x # xs) (p # ps) = (x = p \<and> startswith xs ps)"

fun contains :: "string \<Rightarrow> string \<Rightarrow> bool" where
  "contains [] sub = (sub = [])"
| "contains (x # xs) sub = (startswith (x # xs) sub \<or> contains xs sub)"

subsection \<open>textwrap.dedent\<close>

text \<open>
  \<^verbatim>\<open>textwrap.dedent\<close> of the Python standard library, which the loader applies to the
  docstring, as CPython 3.5 to 3.13 write it with regular expressions:
  \<^enum> every line made only of spaces and tabs is emptied (\<^verbatim>\<open>^[ \t]+$\<close> replaced by the
    empty string, in multi-line mode);
  \<^enum> the indents are collected: the leading run of spaces and tabs of every line that has
    a character other than space and tab (\<^verbatim>\<open>(^[ \t]*)(?:[^ \t\n])\<close>);
  \<^enum> the margin starts as \<^verbatim>\<open>None\<close> and is narrowed by each indent in turn;
  \<^enum> a non-empty margin is removed from the start of every line that begins with it
    (\<^verbatim>\<open>re.sub(r'(?m)^' + margin, '', text)\<close>).
  Lines are the pieces between newline characters.
\<close>

definition ws :: "char \<Rightarrow> bool" where
  "ws c \<longleftrightarrow> c = CHR '' '' \<or> c = CHR 0x09"

definition whitespace_only :: "string \<Rightarrow> bool" where
  "whitespace_only l \<longleftrightarrow> l \<noteq> [] \<and> list_all ws l"

definition blank_whitespace_only :: "string list \<Rightarrow> string list" where
  "blank_whitespace_only ls = map (\<lambda>l. if whitespace_only l then [] else l) ls"

definition indents :: "string list \<Rightarrow> string list" where
  "indents ls = map (takeWhile ws) (filter (\<lambda>l. \<not> list_all ws l) ls)"

text \<open>
  The inner loop over \<^verbatim>\<open>zip(margin, indent)\<close>: the margin is cut at the first position
  where the two differ, and stays as it is when the zip ends without a difference.
\<close>

fun cut_at_diff :: "string \<Rightarrow> string \<Rightarrow> string" where
  "cut_at_diff (x # xs) (y # ys) = (if x \<noteq> y then [] else x # cut_at_diff xs ys)"
| "cut_at_diff xs [] = xs"
| "cut_at_diff [] ys = []"

fun narrow :: "string option \<Rightarrow> string \<Rightarrow> string option" where
  "narrow None indent = Some indent"
| "narrow (Some margin) indent =
     (if startswith indent margin then Some margin
      else if startswith margin indent then Some indent
      else Some (cut_at_diff margin indent))"

definition margin_of :: "string list \<Rightarrow> string option" where
  "margin_of ls = foldl narrow None (indents ls)"

definition strip_margin :: "string \<Rightarrow> string \<Rightarrow> string" where
  "strip_margin margin l = (if startswith l margin then drop (length margin) l else l)"

definition dedent :: "string \<Rightarrow> string" where
  "dedent text =
     (let ls = blank_whitespace_only (split (CHR ''\<newline>'') text) in
      case margin_of ls of
        None \<Rightarrow> join [CHR ''\<newline>''] ls
      | Some margin \<Rightarrow>
          if margin \<noteq> [] then join [CHR ''\<newline>''] (map (strip_margin margin) ls)
          else join [CHR ''\<newline>''] ls)"

text \<open>
  \<^verbatim>\<open>v or ''\<close> for the value of the \<^verbatim>\<open>__doc__\<close> attribute, and \<^verbatim>\<open>dedent\<close> applied to a Python
  value: the regular expression does not take anything but a string.
\<close>

definition or_empty :: "pyvalue option \<Rightarrow> pyvalue" where
  "or_empty v =
     (case v of
        None \<Rightarrow> Str []
      | Some (Str d) \<Rightarrow> if d \<noteq> [] then Str d else Str []
      | Some (NonStr t) \<Rightarrow> if t then NonStr t else Str [])"

definition dedent_value :: "pyvalue \<Rightarrow> pyerror + string" where
  "dedent_value v = (case v of Str d \<Rightarrow> Inr (dedent d) | NonStr t \<Rightarrow> Inl TypeError)"

subsection \<open>str of a signature\<close>

text \<open>
  \<^verbatim>\<open>Parameter.__str__\<close> and \<^verbatim>\<open>Signature.__str__\<close> of the module \<^verbatim>\<open>inspect\<close> (CPython 3): a
  parameter is its name, then \<^verbatim>\<open>: annotation\<close>, then its default (\<^verbatim>\<open>=repr\<close>, with spaces
  around the equals sign after an annotation), with one or two stars in front of a
  variadic one. The signature puts \<^verbatim>\<open>/\<close> after the positional-only parameters and \<^verbatim>\<open>*\<close>
  before the first keyword-only parameter unless a \<^verbatim>\<open>*args\<close> came before; the two flags
  of the loop are the two booleans of \<open>render_params\<close>. The entries are joined by a
  comma and a space, in parentheses, and \<^verbatim>\<open> -> annotation\<close> follows when the callable has
  a return annotation.
\<close>

definition param_str :: "parameter \<Rightarrow> string" where
  "param_str p =
     (let formatted1 = (case pannotation p of
                          None \<Rightarrow> pname p
                        | Some a \<Rightarrow> pname p @ '': '' @ a);
          formatted2 = (case pdefault p of
                          None \<Rightarrow> formatted1
                        | Some d \<Rightarrow>
                            if pannotation p \<noteq> None then formatted1 @ '' = '' @ d
                            else formatted1 @ ''='' @ d)
      in if pkind p = VAR_POSITIONAL then ''*'' @ formatted2
         else if pkind p = VAR_KEYWORD then ''**'' @ formatted2
         else formatted2)"

fun render_params :: "bool \<Rightarrow> bool \<Rightarrow> parameter list \<Rightarrow> string list" where
  "render_params render_pos_only_separator render_kw_only_separator [] =
     (if render_pos_only_separator then [''/''] else [])"
| "render_params render_pos_only_separator render_kw_only_separator (p # ps) =
     (if pkind p = POSITIONAL_ONLY
      then param_str p # render_params True render_kw_only_separator ps
      else
        (if render_pos_only_separator then [''/''] else [])
        @ (if pkind p = VAR_POSITIONAL
           then param_str p # render_params False False ps
           else if pkind p = KEYWORD_ONLY \<and> render_kw_only_separator
           then ''*'' # param_str p # render_params False False ps
           else param_str p # render_params False render_kw_only_separator ps))"

definition signature_str :: "py_signature \<Rightarrow> string" where
  "signature_str sg =
     ''('' @ join '', '' (render_params False True (parameters sg)) @ '')''
     @ (case return_annotation sg of None \<Rightarrow> [] | Some a \<Rightarrow> '' -> '' @ a)"

subsection \<open>The loader\<close>

text \<open>\<^verbatim>\<open>isnamedtuple(o)\<close>: the duck-type check for a named tuple.\<close>

definition isnamedtuple :: "pyobj \<Rightarrow> bool" where
  "isnamedtuple o' \<longleftrightarrow> has_fields o' \<and> asdict_attr o' \<noteq> None \<and> asdict_attr o' = Some True"

text \<open>
  The loop of \<^verbatim>\<open>get_function_signature\<close> over the defaults: the argument at index
  \<open>i + offset\<close> gets \<^verbatim>\<open>=repr(default)\<close> appended. The index is a Python index: a negative
  one counts from the end, and one out of range raises \<^verbatim>\<open>IndexError\<close>. \<open>py_index\<close> gives
  the position in the list that the index stands for.
\<close>

definition py_index :: "'a list \<Rightarrow> int \<Rightarrow> pyerror + nat" where
  "py_index xs i =
     (if 0 \<le> i \<and> i < int (length xs) then Inr (nat i)
      else if i < 0 \<and> - int (length xs) \<le> i then Inr (nat (int (length xs) + i))
      else Inl IndexError)"

fun apply_defaults :: "int \<Rightarrow> string list \<Rightarrow> string list \<Rightarrow> pyerror + string list" where
  "apply_defaults j [] as = Inr as"
| "apply_defaults j (d # ds) as =
     (case py_index as j of
        Inl e \<Rightarrow> Inl e
      | Inr k \<Rightarrow> apply_defaults (j + 1) ds (as[k := (as ! k) @ ''='' @ d]))"

text \<open>The \<^verbatim>\<open>else\<close> branch of \<^verbatim>\<open>get_function_signature\<close>: the argument list from the argspec.\<close>

definition argspec_sig :: "argspec \<Rightarrow> pyerror + string" where
  "argspec_sig a =
     (case (case defaults a of
              None \<Rightarrow> Inr (args a)
            | Some ds \<Rightarrow>
                if ds \<noteq> [] then apply_defaults (int (length (args a)) - int (length ds)) ds (args a)
                else Inr (args a)) of
        Inl e \<Rightarrow> Inl e
      | Inr as1 \<Rightarrow>
          let as2 = (case varargs a of
                       None \<Rightarrow> as1
                     | Some v \<Rightarrow> if v \<noteq> [] then as1 @ [''*'' @ v] else as1);
              as3 = (case varkw a of
                       None \<Rightarrow> as2
                     | Some k \<Rightarrow> if k \<noteq> [] then as2 @ [''**'' @ k] else as2)
          in Inr (''('' @ join '', '' as3 @ '')''))"

text \<open>
  \<^verbatim>\<open>get_function_signature(function, owner_class=None, show_module=False)\<close>. The name
  parts are collected first, each attribute read raising \<^verbatim>\<open>AttributeError\<close> when the
  attribute is missing; then the parameter list is \<^verbatim>\<open>str(inspect.signature(function))\<close>
  when the module has \<^verbatim>\<open>signature\<close>, and is built from \<^verbatim>\<open>inspect.getargspec\<close> otherwise.
\<close>

definition get_function_signature ::
    "inspect \<Rightarrow> pyobj \<Rightarrow> pyobj option \<Rightarrow> bool \<Rightarrow> pyerror + string" where
  "get_function_signature insp function owner_class show_module =
     (case (if show_module
            then (case module_attr function of
                    None \<Rightarrow> Inl (AttributeError ''__module__'')
                  | Some m \<Rightarrow> Inr [m])
            else Inr []) of
        Inl e \<Rightarrow> Inl e
      | Inr parts1 \<Rightarrow>
     (case (case owner_class of
              None \<Rightarrow> Inr parts1
            | Some oc \<Rightarrow>
                if truthy oc
                then (case name_attr oc of
                        None \<Rightarrow> Inl (AttributeError ''__name__'')
                      | Some n \<Rightarrow> Inr (parts1 @ [n]))
                else Inr parts1) of
        Inl e \<Rightarrow> Inl e
      | Inr parts2 \<Rightarrow>
     (case name_attr function of
        None \<Rightarrow> Inl (AttributeError ''__name__'')
      | Some n \<Rightarrow>
          let name_parts = (if n \<noteq> ''__init__'' then parts2 @ [n] else parts2);
              name = join ''.'' name_parts
          in (case (case signature insp of
                      Some inspect_signature \<Rightarrow>
                        (case inspect_signature function of
                           Inl e \<Rightarrow> Inl e
                         | Inr sg \<Rightarrow> Inr (signature_str sg))
                    | None \<Rightarrow>
                        (case getargspec insp function of
                           Inl e \<Rightarrow> Inl e
                         | Inr a \<Rightarrow> argspec_sig a)) of
                Inl e \<Rightarrow> Inl e
              | Inr sig \<Rightarrow> Inr (name @ sig)))))"

text \<open>
  The default title of \<^verbatim>\<open>load_section\<close>: \<^verbatim>\<open>identifier.rsplit('.', 1)[1]\<close> when the
  identifier has a dot, the identifier otherwise.
\<close>

definition default_title_of :: "string \<Rightarrow> pyerror + string" where
  "default_title_of ident =
     (if CHR ''.'' \<in> set ident then index1 (rsplit1 (CHR ''.'') ident) else Inr ident)"

text \<open>
  \<^verbatim>\<open>PythonLoader.load_section(section)\<close>. The section is mutated in place, so the model
  returns the section as the call leaves it together with the outcome: \<open>Inr ()\<close> for a
  normal return, \<open>Inl e\<close> for the exception \<open>e\<close>. The loader's \<^verbatim>\<open>config\<close> is not read. In
  the model \<open>doc\<close> is the dedented docstring, the value of \<^verbatim>\<open>section.content\<close> after line
  75; the call ends there, with only the title written, when \<^verbatim>\<open>dedent\<close> raises.
\<close>

definition load_section ::
    "resolver \<Rightarrow> inspect \<Rightarrow> Section \<Rightarrow> (pyerror + unit) \<times> Section" where
  "load_section import_object_with_scope insp section =
     (case identifier section of
        None \<Rightarrow> (Inl AssertionError, section)
      | Some ident \<Rightarrow>
     (case import_object_with_scope ident of
        Inl e \<Rightarrow> (Inl e, section)
      | Inr (obj, scope) \<Rightarrow>
     (case default_title_of ident of
        Inl e \<Rightarrow> (Inl e, section)
      | Inr default_title \<Rightarrow>
          let title0 = (case name_attr obj of None \<Rightarrow> default_title | Some n \<Rightarrow> n);
              title1 = (if title0 = ''__init__'' then ''Constructor __init__'' else title0);
              s1 = section\<lparr>title := Some title1\<rparr>
          in (case dedent_value (or_empty (doc_attr obj)) of
                Inl e \<Rightarrow> (Inl e, s1)
              | Inr doc \<Rightarrow>
          let s2 = s1\<lparr>content := Some doc\<rparr>;
              s3 = s2\<lparr>loader_context := Some [(''obj'', obj), (''scope'', scope)]\<rparr>;
              s4 = (if isnamedtuple obj then s3\<lparr>title := Some (title1 @ '' namedtuple'')\<rparr>
                    else if is_class obj then s3\<lparr>title := Some (title1 @ '' class'')\<rparr>
                    else if is_callable obj \<and> \<not> is_class scope
                      then s3\<lparr>title := Some (title1 @ '' function'')\<rparr>
                    else s3)
          in if is_callable obj \<and> \<not> contains doc ''namedtuple''
             then (case get_function_signature insp obj
                          (if is_class scope then Some scope else None) False of
                     Inl e \<Rightarrow> (Inl e, s4)
                   | Inr sig \<Rightarrow>
                       if \<not> is_class obj
                       then (Inr (), s4\<lparr>content :=
                               Some (''```python\<newline>'' @ sig @ ''\<newline>```\<newline>'' @ doc)\<rparr>)
                       else (Inr (), s4))
             else (Inr (), s4)))))"

subsection \<open>Example objects\<close>

text \<open>
  A section before it is loaded: the caller has given the identifier, title and loader
  context are unset and the content is the placeholder that the constructor of
  \<^verbatim>\<open>Section\<close> puts there. No property below depends on these initial values, except
  where it compares the section before and after the call.
\<close>

definition fresh_section :: "string \<Rightarrow> Section" where
  "fresh_section ident =
     \<lparr>identifier = Some ident, title = None, content = Some ''*Nothing to see here.*'',
      loader_context = None\<rparr>"

text \<open>
  A module \<^verbatim>\<open>m\<close> with
  \<^item> a function \<^verbatim>\<open>f(a, b=2, *args, **kw)\<close> and a function \<^verbatim>\<open>g(a: int, b: int = 2) -> int\<close>;
  \<^item> a class \<^verbatim>\<open>C\<close> with its constructor \<^verbatim>\<open>__init__(self, a, b=2, *args, **kw)\<close>;
  \<^item> a \<^verbatim>\<open>functools.partial\<close> object \<^verbatim>\<open>p\<close> of a function that takes any arguments: callable,
    no \<^verbatim>\<open>__name__\<close>;
  \<^item> a function \<^verbatim>\<open>pt\<close> that has been given the attributes \<^verbatim>\<open>_fields\<close> and \<^verbatim>\<open>_asdict\<close> (a
    callable), and a named-tuple class \<^verbatim>\<open>Point\<close>;
  \<^item> \<^verbatim>\<open>B\<close>, the class \<^verbatim>\<open>types.BuiltinFunctionType\<close>, whose \<^verbatim>\<open>__doc__\<close> is a descriptor;
  \<^item> an object \<^verbatim>\<open>y\<close> whose docstring has a line of one space between the lines \<^verbatim>\<open>a\<close> and
    \<^verbatim>\<open>b\<close>, and an object \<^verbatim>\<open>x\<close> whose \<^verbatim>\<open>__name__\<close> is the empty string.
\<close>

definition example_module :: pyobj where
  "example_module =
     \<lparr>name_attr = Some ''m'', doc_attr = None, module_attr = None, has_fields = False,
      asdict_attr = None, is_class = False, is_callable = False, truthy = True\<rparr>"

definition example_function :: pyobj where
  "example_function =
     \<lparr>name_attr = Some ''f'', doc_attr = Some (Str ''  Add.\<newline>    more''),
      module_attr = Some ''m'', has_fields = False, asdict_attr = None, is_class = False,
      is_callable = True, truthy = True\<rparr>"

definition example_annotated :: pyobj where
  "example_annotated =
     \<lparr>name_attr = Some ''g'', doc_attr = None, module_attr = Some ''m'',
      has_fields = False, asdict_attr = None, is_class = False, is_callable = True,
      truthy = True\<rparr>"

definition example_class :: pyobj where
  "example_class =
     \<lparr>name_attr = Some ''C'', doc_attr = Some (Str ''A class.''), module_attr = Some ''m'',
      has_fields = False, asdict_attr = None, is_class = True, is_callable = True,
      truthy = True\<rparr>"

definition example_init :: pyobj where
  "example_init =
     \<lparr>name_attr = Some ''__init__'', doc_attr = None, module_attr = Some ''m'',
      has_fields = False, asdict_attr = None, is_class = False, is_callable = True,
      truthy = True\<rparr>"

definition example_partial :: pyobj where
  "example_partial =
     \<lparr>name_attr = None, doc_attr = Some (Str ''partial''), module_attr = None,
      has_fields = False, asdict_attr = None, is_class = False, is_callable = True,
      truthy = True\<rparr>"

definition example_point :: pyobj where
  "example_point =
     \<lparr>name_attr = Some ''pt'', doc_attr = Some (Str ''a point''), module_attr = Some ''m'',
      has_fields = True, asdict_attr = Some True, is_class = False, is_callable = True,
      truthy = True\<rparr>"

definition example_namedtuple :: pyobj where
  "example_namedtuple =
     \<lparr>name_attr = Some ''Point'', doc_attr = Some (Str ''Point(x, y)''),
      module_attr = Some ''m'', has_fields = True, asdict_attr = Some True, is_class = True,
      is_callable = True, truthy = True\<rparr>"

definition example_builtin_type :: pyobj where
  "example_builtin_type =
     \<lparr>name_attr = Some ''builtin_function_or_method'', doc_attr = Some (NonStr True),
      module_attr = Some ''builtins'', has_fields = False, asdict_attr = None,
      is_class = True, is_callable = True, truthy = True\<rparr>"

definition example_documented :: pyobj where
  "example_documented =
     \<lparr>name_attr = None, doc_attr = Some (Str ''a\<newline> \<newline>b''), module_attr = None,
      has_fields = False, asdict_attr = None, is_class = False, is_callable = False,
      truthy = True\<rparr>"

definition example_constant :: pyobj where
  "example_constant =
     \<lparr>name_attr = Some [], doc_attr = None, module_attr = None,
      has_fields = False, asdict_attr = None, is_class = False, is_callable = False,
      truthy = True\<rparr>"

definition example_resolver :: resolver where
  "example_resolver ident =
     (if ident = ''m.f'' then Inr (example_function, example_module)
      else if ident = ''m.g'' then Inr (example_annotated, example_module)
      else if ident = ''m.C'' then Inr (example_class, example_module)
      else if ident = ''m.C.__init__'' then Inr (example_init, example_class)
      else if ident = ''m.p'' then Inr (example_partial, example_module)
      else if ident = ''m.pt'' then Inr (example_point, example_module)
      else if ident = ''m.Point'' then Inr (example_namedtuple, example_module)
      else if ident = ''m.B'' then Inr (example_builtin_type, example_module)
      else if ident = ''m.x'' then Inr (example_constant, example_module)
      else if ident = ''m.y'' then Inr (example_documented, example_module)
      else Inl (Raised ''ImportError''))"

text \<open>
  The \<^verbatim>\<open>inspect\<close> module of Python 3 and of Python 2 on these objects. The signature and
  the argspec are those of the object asked about, told apart by its name; those of the
  functions \<^verbatim>\<open>f\<close> and \<^verbatim>\<open>pt\<close> are the same. \<^verbatim>\<open>inspect.signature\<close> gives the parameters of the
  constructor without \<^verbatim>\<open>self\<close> for a class and the variadic parameters \<^verbatim>\<open>args\<close> and
  \<^verbatim>\<open>kwargs\<close> for the partial object;
  \<^verbatim>\<open>inspect.getargspec\<close> raises on what is not a function.
\<close>

definition plain :: "string \<Rightarrow> param_kind \<Rightarrow> parameter" where
  "plain n k = \<lparr>pname = n, pkind = k, pdefault = None, pannotation = None\<rparr>"

definition example_params :: "parameter list" where
  "example_params =
     [plain ''a'' POSITIONAL_OR_KEYWORD,
      \<lparr>pname = ''b'', pkind = POSITIONAL_OR_KEYWORD, pdefault = Some ''2'', pannotation = None\<rparr>,
      plain ''args'' VAR_POSITIONAL,
      plain ''kw'' VAR_KEYWORD]"

definition example_signature :: "pyobj \<Rightarrow> pyerror + py_signature" where
  "example_signature f =
     (if name_attr f = Some ''f'' \<or> name_attr f = Some ''pt'' \<or> name_attr f = Some ''C''
      then Inr \<lparr>parameters = example_params, return_annotation = None\<rparr>
      else if name_attr f = Some ''__init__''
      then Inr \<lparr>parameters = plain ''self'' POSITIONAL_OR_KEYWORD # example_params,
                return_annotation = None\<rparr>
      else if name_attr f = Some ''g''
      then Inr \<lparr>parameters =
                  [\<lparr>pname = ''a'', pkind = POSITIONAL_OR_KEYWORD, pdefault = None,
                    pannotation = Some ''int''\<rparr>,
                   \<lparr>pname = ''b'', pkind = POSITIONAL_OR_KEYWORD, pdefault = Some ''2'',
                    pannotation = Some ''int''\<rparr>],
                return_annotation = Some ''int''\<rparr>
      else if name_attr f = Some ''Point''
      then Inr \<lparr>parameters = [plain ''x'' POSITIONAL_OR_KEYWORD, plain ''y'' POSITIONAL_OR_KEYWORD],
                return_annotation = None\<rparr>
      else if is_callable f \<and> name_attr f = None
      then Inr \<lparr>parameters = [plain ''args'' VAR_POSITIONAL, plain ''kwargs'' VAR_KEYWORD],
                return_annotation = None\<rparr>
      else Inl (Raised ''TypeError''))"

definition example_argspec :: "pyobj \<Rightarrow> pyerror + argspec" where
  "example_argspec f =
     (if name_attr f = Some ''f'' \<or> name_attr f = Some ''pt''
      then Inr \<lparr>args = [''a'', ''b''], varargs = Some ''args'', varkw = Some ''kw'',
                defaults = Some [''2'']\<rparr>
      else if name_attr f = Some ''__init__''
      then Inr \<lparr>args = [''self'', ''a'', ''b''], varargs = Some ''args'', varkw = Some ''kw'',
                defaults = Some [''2'']\<rparr>
      else Inl (Raised ''TypeError''))"

definition example_inspect :: inspect where
  "example_inspect = \<lparr>signature = Some example_signature, getargspec = example_argspec\<rparr>"

definition example_inspect2 :: inspect where
  "example_inspect2 = \<lparr>signature = None, getargspec = example_argspec\<rparr>"

lemmas example_defs = fresh_section_def example_module_def example_function_def
  example_annotated_def example_class_def example_init_def example_partial_def
  example_point_def example_namedtuple_def example_builtin_type_def example_documented_def
  example_constant_def example_resolver_def example_inspect_def example_inspect2_def
  example_signature_def example_argspec_def example_params_def plain_def

section \<open>Properties of the loader\<close>

subsection \<open>Strings\<close>

lemma rsplit1_rev_in:
  "c \<in> set xs \<Longrightarrow>
   rsplit1_rev c xs acc = [rev (tl (dropWhile (\<lambda>x. x \<noteq> c) xs)), rev (takeWhile (\<lambda>x. x \<noteq> c) xs) @ acc]"
  by (induction xs arbitrary: acc) auto

lemma rsplit1_rev_notin:
  "c \<notin> set xs \<Longrightarrow> rsplit1_rev c xs acc = [rev xs @ acc]"
  by (induction xs arbitrary: acc) auto

lemma rsplit1_last:
  assumes "c \<in> set s"
  shows "\<exists>pre t. rsplit1 c s = [pre, t] \<and> s = pre @ c # t \<and> c \<notin> set t"
proof -
  let ?t = "rev (takeWhile (\<lambda>x. x \<noteq> c) (rev s))"
  let ?p = "rev (tl (dropWhile (\<lambda>x. x \<noteq> c) (rev s)))"
  from assms have in_rev: "c \<in> set (rev s)" by simp
  have r: "rsplit1 c s = [?p, ?t]"
    unfolding rsplit1_def using rsplit1_rev_in [OF in_rev, of "[]"] by simp
  from in_rev have "dropWhile (\<lambda>x. x \<noteq> c) (rev s) \<noteq> []" by simp
  moreover have "hd (dropWhile (\<lambda>x. x \<noteq> c) (rev s)) = c"
    using hd_dropWhile [of "\<lambda>x. x \<noteq> c" "rev s"] calculation by simp
  ultimately have d: "dropWhile (\<lambda>x. x \<noteq> c) (rev s) = c # tl (dropWhile (\<lambda>x. x \<noteq> c) (rev s))"
    by (metis list.collapse)
  have "rev s = takeWhile (\<lambda>x. x \<noteq> c) (rev s) @ dropWhile (\<lambda>x. x \<noteq> c) (rev s)" by simp
  then have "rev s = takeWhile (\<lambda>x. x \<noteq> c) (rev s) @ c # tl (dropWhile (\<lambda>x. x \<noteq> c) (rev s))"
    using d by simp
  then have "rev (rev s) = rev (takeWhile (\<lambda>x. x \<noteq> c) (rev s) @ c # tl (dropWhile (\<lambda>x. x \<noteq> c) (rev s)))"
    by simp
  then have s: "s = ?p @ c # ?t" by simp
  have "c \<notin> set ?t" using set_takeWhileD [of c "\<lambda>x. x \<noteq> c" "rev s"] by auto
  with r s show ?thesis by blast
qed

text \<open>\<open>contains\<close> is the substring test.\<close>

lemma startswith_iff: "startswith s p \<longleftrightarrow> (\<exists>post. s = p @ post)"
  by (induction s p rule: startswith.induct) auto

lemma contains_iff: "contains s sub \<longleftrightarrow> (\<exists>pre post. s = pre @ sub @ post)"
proof (induction s)
  case Nil
  then show ?case by auto
next
  case (Cons x xs)
  show ?case
  proof
    assume "contains (x # xs) sub"
    then consider "startswith (x # xs) sub" | "contains xs sub" by auto
    then show "\<exists>pre post. x # xs = pre @ sub @ post"
    proof cases
      case 1
      then obtain post where "x # xs = sub @ post" using startswith_iff by blast
      then have "x # xs = [] @ sub @ post" by simp
      then show ?thesis by blast
    next
      case 2
      with Cons.IH obtain pre post where "xs = pre @ sub @ post" by blast
      then have "x # xs = (x # pre) @ sub @ post" by simp
      then show ?thesis by blast
    qed
  next
    assume "\<exists>pre post. x # xs = pre @ sub @ post"
    then obtain pre post where eq: "x # xs = pre @ sub @ post" by blast
    show "contains (x # xs) sub"
    proof (cases pre)
      case Nil
      with eq have "startswith (x # xs) sub" using startswith_iff by auto
      then show ?thesis by simp
    next
      case (Cons y ys)
      with eq have "xs = ys @ sub @ post" by simp
      with Cons.IH have "contains xs sub" by blast
      then show ?thesis by simp
    qed
  qed
qed

subsection \<open>The default title\<close>

lemma default_title_dot:
  assumes "CHR ''.'' \<in> set ident"
  shows "\<exists>pre t. default_title_of ident = Inr t \<and> ident = pre @ ''.'' @ t \<and> CHR ''.'' \<notin> set t"
  using rsplit1_last [OF assms] assms by (auto simp: default_title_of_def)

lemma default_title_nodot:
  "CHR ''.'' \<notin> set ident \<Longrightarrow> default_title_of ident = Inr ident"
  by (simp add: default_title_of_def)

lemma default_title_total: "\<exists>t. default_title_of ident = Inr t"
  using default_title_dot default_title_nodot by (cases "CHR ''.'' \<in> set ident") blast+

lemma default_title_nonempty:
  assumes "default_title_of ident = Inr dt" and "ident \<noteq> []" and "last ident \<noteq> CHR ''.''"
  shows "dt \<noteq> []"
proof (cases "CHR ''.'' \<in> set ident")
  case True
  from default_title_dot [OF True] assms(1)
  obtain pre where "ident = pre @ ''.'' @ dt" by auto
  with assms(3) show ?thesis by auto
next
  case False
  with assms(1,2) show ?thesis by (simp add: default_title_nodot)
qed

subsection \<open>textwrap.dedent, line by line\<close>

text \<open>Splitting at a character and joining with it gives the string back.\<close>

lemma startswith_prefix: "startswith s p \<longleftrightarrow> prefix p s"
  by (simp add: startswith_iff prefix_def)

lemma split_not_Nil: "split c s \<noteq> []"
  by (induction s) (auto split: list.split)

lemma join_Cons: "ps \<noteq> [] \<Longrightarrow> join sep (x # ps) = x @ sep @ join sep ps"
  by (cases ps) simp_all

lemma join_split: "join [c] (split c s) = s"
proof (induction s)
  case Nil
  show ?case by simp
next
  case (Cons x xs)
  show ?case
  proof (cases "x = c")
    case True
    with Cons show ?thesis by (simp add: join_Cons split_not_Nil)
  next
    case False
    obtain p ps where sp: "split c xs = p # ps"
      using split_not_Nil [of c xs] by (cases "split c xs") auto
    with Cons have "join [c] (p # ps) = xs" by simp
    then have "join [c] ((x # p) # ps) = x # xs" by (cases ps) auto
    with False sp show ?thesis by simp
  qed
qed

text \<open>
  The margin is the longest common prefix of the indents: each step of the loop replaces
  the margin by the longest common prefix of the margin and the next indent.
\<close>

lemma cut_at_diff_lcp:
  "\<not> prefix ys xs \<Longrightarrow> cut_at_diff xs ys = longest_common_prefix xs ys"
  by (induction xs ys rule: cut_at_diff.induct) auto

lemma narrow_lcp: "narrow (Some m) x = Some (longest_common_prefix m x)"
proof -
  have "prefix m x \<Longrightarrow> longest_common_prefix m x = m"
    by (metis longest_common_prefix_max_prefix longest_common_prefix_prefix1 prefix_order.eq_iff
        prefix_order.order_refl)
  moreover have "prefix x m \<Longrightarrow> longest_common_prefix m x = x"
    by (metis longest_common_prefix_max_prefix longest_common_prefix_prefix2 prefix_order.eq_iff
        prefix_order.order_refl)
  ultimately show ?thesis
    by (auto simp add: startswith_prefix cut_at_diff_lcp)
qed

lemma foldl_narrow_Some:
  "\<exists>r. foldl narrow (Some m) xs = Some r \<and> prefix r m \<and> (\<forall>x\<in>set xs. prefix r x)
       \<and> (\<forall>p. prefix p m \<and> (\<forall>x\<in>set xs. prefix p x) \<longrightarrow> prefix p r)"
proof (induction xs arbitrary: m)
  case Nil
  show ?case by simp
next
  case (Cons x xs)
  let ?m = "longest_common_prefix m x"
  from Cons [of ?m] obtain r where r: "foldl narrow (Some ?m) xs = Some r" "prefix r ?m"
    "\<forall>y\<in>set xs. prefix r y"
    "\<forall>p. prefix p ?m \<and> (\<forall>y\<in>set xs. prefix p y) \<longrightarrow> prefix p r"
    by blast
  have 1: "foldl narrow (Some m) (x # xs) = Some r"
    by (simp only: foldl.simps narrow_lcp r(1))
  have 2: "prefix r m" "prefix r x"
    using r(2) longest_common_prefix_prefix1 [of m x] longest_common_prefix_prefix2 [of m x]
    by (meson prefix_order.trans)+
  have 3: "prefix p r" if "prefix p m" "\<forall>y\<in>set (x # xs). prefix p y" for p
  proof -
    from that have "prefix p ?m" by (simp add: longest_common_prefix_max_prefix)
    with that r(4) show ?thesis by simp
  qed
  from 1 2 3 r(3) show ?case by auto
qed

lemma margin_of_None: "margin_of ls = None \<longleftrightarrow> (\<forall>l\<in>set ls. list_all ws l)"
proof (cases "indents ls")
  case Nil
  then show ?thesis by (auto simp add: margin_of_def indents_def filter_empty_conv)
next
  case (Cons x xs)
  then have "filter (\<lambda>l. \<not> list_all ws l) ls \<noteq> []"
    by (auto simp add: indents_def)
  then have nb: "\<not> (\<forall>l\<in>set ls. list_all ws l)"
    by (simp add: filter_empty_conv)
  have ns: "margin_of ls \<noteq> None"
    using foldl_narrow_Some [of x xs] Cons by (auto simp add: margin_of_def)
  from nb ns show ?thesis by blast
qed

lemma margin_of_Some:
  assumes "margin_of ls = Some m"
  shows "(\<forall>x\<in>set (indents ls). prefix m x)
       \<and> (\<forall>p. (\<forall>x\<in>set (indents ls). prefix p x) \<longrightarrow> prefix p m)"
proof (cases "indents ls")
  case Nil
  with assms show ?thesis by (simp add: margin_of_def)
next
  case (Cons x xs)
  from foldl_narrow_Some [of x xs] obtain r where r: "foldl narrow (Some x) xs = Some r"
    "prefix r x" "\<forall>y\<in>set xs. prefix r y"
    "\<forall>p. prefix p x \<and> (\<forall>y\<in>set xs. prefix p y) \<longrightarrow> prefix p r"
    by blast
  with assms Cons have "m = r" by (simp add: margin_of_def)
  with r Cons show ?thesis by auto
qed

lemma indents_blank: "indents (blank_whitespace_only ls) = indents ls"
proof -
  have "filter (\<lambda>l. \<not> list_all ws l) (map (\<lambda>l. if whitespace_only l then [] else l) ls)
      = filter (\<lambda>l. \<not> list_all ws l) ls"
    by (induction ls) (auto simp add: whitespace_only_def)
  then show ?thesis by (simp add: indents_def blank_whitespace_only_def)
qed

lemma margin_of_blank: "margin_of (blank_whitespace_only ls) = margin_of ls"
  by (simp add: margin_of_def indents_blank)

lemma prefix_takeWhile:
  "prefix p (takeWhile P l) \<longleftrightarrow> prefix p l \<and> list_all P p"
proof
  assume a: "prefix p (takeWhile P l)"
  then obtain q where q: "takeWhile P l = p @ q" by (auto simp add: prefix_def)
  have "set p \<subseteq> set (takeWhile P l)" using q by simp
  then have "list_all P p" using set_takeWhileD [of _ P l] by (auto simp add: list_all_iff)
  moreover have "prefix p l"
    using a takeWhile_is_prefix [of P l] by (meson prefix_order.trans)
  ultimately show "prefix p l \<and> list_all P p" by simp
next
  assume "prefix p l \<and> list_all P p"
  then obtain q where l: "l = p @ q" and p: "\<forall>x\<in>set p. P x"
    by (auto simp add: prefix_def list_all_iff)
  then show "prefix p (takeWhile P l)" by (simp add: takeWhile_append2)
qed

lemma margin_lines:
  assumes "margin_of ls = Some m"
  shows "list_all ws m"
    and "\<forall>l\<in>set ls. \<not> list_all ws l \<longrightarrow> prefix m l"
    and "\<forall>p. list_all ws p \<and> (\<forall>l\<in>set ls. \<not> list_all ws l \<longrightarrow> prefix p l) \<longrightarrow> prefix p m"
proof -
  note m = margin_of_Some [OF assms]
  have ind: "x \<in> set (indents ls) \<longleftrightarrow> (\<exists>l\<in>set ls. \<not> list_all ws l \<and> x = takeWhile ws l)" for x
    by (auto simp add: indents_def)
  from assms have "\<not> (\<forall>l\<in>set ls. list_all ws l)" using margin_of_None [of ls] by simp
  then obtain l0 where l0: "l0 \<in> set ls" "\<not> list_all ws l0" by blast
  then have "prefix m (takeWhile ws l0)" using m ind by blast
  then show "list_all ws m" by (simp add: prefix_takeWhile)
  show "\<forall>l\<in>set ls. \<not> list_all ws l \<longrightarrow> prefix m l"
  proof (intro ballI impI)
    fix l assume "l \<in> set ls" "\<not> list_all ws l"
    then have "prefix m (takeWhile ws l)" using m ind by blast
    then show "prefix m l" by (simp add: prefix_takeWhile)
  qed
  show "\<forall>p. list_all ws p \<and> (\<forall>l\<in>set ls. \<not> list_all ws l \<longrightarrow> prefix p l) \<longrightarrow> prefix p m"
  proof (intro allI impI)
    fix p assume p: "list_all ws p \<and> (\<forall>l\<in>set ls. \<not> list_all ws l \<longrightarrow> prefix p l)"
    then have "\<forall>x\<in>set (indents ls). prefix p x"
      using ind by (auto simp add: prefix_takeWhile)
    with m show "prefix p m" by blast
  qed
qed

text \<open>\<^verbatim>\<open>dedent\<close> line by line.\<close>

lemma dedent_lines:
  "dedent text =
     join [CHR ''\<newline>'']
       (map (\<lambda>l. if list_all ws l then []
                 else drop (length (case margin_of (split (CHR ''\<newline>'') text) of
                                      None \<Rightarrow> [] | Some m \<Rightarrow> m)) l)
            (split (CHR ''\<newline>'') text))"
proof -
  let ?ls = "split (CHR ''\<newline>'') text"
  let ?b = "map (\<lambda>l. if list_all ws l then [] else l) ?ls"
  have blank: "blank_whitespace_only ?ls = ?b"
    unfolding blank_whitespace_only_def
    by (rule map_cong) (auto simp add: whitespace_only_def)
  have mb: "margin_of ?b = margin_of ?ls"
    using margin_of_blank [of ?ls] unfolding blank .
  have d: "dedent text =
      (case margin_of ?ls of
         None \<Rightarrow> join [CHR ''\<newline>''] ?b
       | Some margin \<Rightarrow>
           if margin \<noteq> [] then join [CHR ''\<newline>''] (map (strip_margin margin) ?b)
           else join [CHR ''\<newline>''] ?b)"
    unfolding dedent_def Let_def blank mb ..
  show ?thesis
  proof (cases "margin_of ?ls")
    case None
    show ?thesis unfolding d None by (simp cong del: if_weak_cong)
  next
    case (Some m)
    note ml = margin_lines [OF Some]
    show ?thesis
    proof (cases "m = []")
      case True
      then show ?thesis unfolding d Some by (simp cong del: if_weak_cong)
    next
      case False
      have eq: "map (strip_margin m) ?b
          = map (\<lambda>l. if list_all ws l then [] else drop (length m) l) ?ls"
        unfolding map_map
      proof (rule map_cong [OF refl])
        fix l assume l: "l \<in> set ?ls"
        show "(strip_margin m \<circ> (\<lambda>l. if list_all ws l then [] else l)) l =
          (if list_all ws l then [] else drop (length m) l)"
        proof (cases "list_all ws l")
          case True
          with False show ?thesis by (cases m) (simp_all add: strip_margin_def)
        next
          case nb: False
          with l ml(2) have "prefix m l" by blast
          with nb show ?thesis by (simp add: strip_margin_def startswith_prefix)
        qed
      qed
      show ?thesis unfolding d Some option.case
        using False by (simp only: eq if_True simp_thms)
    qed
  qed
qed

lemma dedent_unchanged:
  assumes "\<forall>l\<in>set (split (CHR ''\<newline>'') text). \<not> whitespace_only l"
    and "(case margin_of (split (CHR ''\<newline>'') text) of None \<Rightarrow> [] | Some m \<Rightarrow> m) = []"
  shows "dedent text = text"
proof -
  let ?ls = "split (CHR ''\<newline>'') text"
  have "map (\<lambda>l. if list_all ws l then [] else drop (length ([]::string)) l) ?ls = ?ls"
  proof (rule map_idI)
    fix l assume "l \<in> set ?ls"
    with assms(1) have "\<not> whitespace_only l" by blast
    then show "(if list_all ws l then [] else drop (length ([]::string)) l) = l"
      by (auto simp add: whitespace_only_def)
  qed
  then show ?thesis
    unfolding dedent_lines assms(2) by (simp add: join_split)
qed

subsection \<open>The argument list from an argspec\<close>

text \<open>
  The loop over the defaults, when there are no more defaults than arguments: the last
  arguments get their default appended, the others stay.
\<close>

lemma py_index_in_range: "j < length xs \<Longrightarrow> py_index xs (int j) = Inr j"
  by (simp add: py_index_def)

lemma apply_defaults_in_range:
  "j + length ds \<le> length as \<Longrightarrow>
   apply_defaults (int j) ds as =
     Inr (take j as @ map2 (\<lambda>a d. a @ ''='' @ d) (take (length ds) (drop j as)) ds
          @ drop (j + length ds) as)"
proof (induction ds arbitrary: j as)
  case Nil
  then show ?case by simp
next
  case (Cons d ds)
  let ?v = "as ! j @ ''='' @ d"
  let ?as = "as[j := ?v]"
  let ?f = "\<lambda>a d. a @ ''='' @ d"
  from Cons.prems have j: "j < length as" and rest: "Suc j + length ds \<le> length ?as" by simp_all
  have idx: "py_index as (int j) = Inr j" by (rule py_index_in_range [OF j])
  have "apply_defaults (int j) (d # ds) as = apply_defaults (int j + 1) ds ?as"
    by (simp only: apply_defaults.simps idx sum.case)
  also have "int j + 1 = int (Suc j)" by simp
  also have "apply_defaults (int (Suc j)) ds ?as =
      Inr (take (Suc j) ?as @ map2 ?f (take (length ds) (drop (Suc j) ?as)) ds
           @ drop (Suc j + length ds) ?as)"
    by (rule Cons.IH [OF rest])
  also have "take (Suc j) ?as = take j as @ [?v]"
    using j by (simp add: take_Suc_conv_app_nth)
  also have "drop (Suc j) ?as = drop (Suc j) as" by simp
  also have "drop (Suc j + length ds) ?as = drop (j + length (d # ds)) as" by simp
  finally have "apply_defaults (int j) (d # ds) as =
      Inr ((take j as @ [?v]) @ map2 ?f (take (length ds) (drop (Suc j) as)) ds
           @ drop (j + length (d # ds)) as)" .
  moreover have "map2 ?f (take (length (d # ds)) (drop j as)) (d # ds)
      = ?v # map2 ?f (take (length ds) (drop (Suc j) as)) ds"
    using j by (simp add: Cons_nth_drop_Suc [symmetric])
  ultimately show ?case by simp
qed

lemma argspec_sig_rendered:
  assumes "ds = (case defaults a of None \<Rightarrow> [] | Some ds \<Rightarrow> ds)"
    and "length ds \<le> length (args a)"
  shows "argspec_sig a =
    Inr (''('' @ join '', ''
          (take (length (args a) - length ds) (args a)
           @ map2 (\<lambda>x d. x @ ''='' @ d) (drop (length (args a) - length ds) (args a)) ds
           @ (case varargs a of None \<Rightarrow> [] | Some v \<Rightarrow> if v \<noteq> [] then [''*'' @ v] else [])
           @ (case varkw a of None \<Rightarrow> [] | Some k \<Rightarrow> if k \<noteq> [] then [''**'' @ k] else []))
         @ '')'')"
proof -
  let ?n = "length (args a)" and ?k = "length ds"
  let ?as1 = "take (?n - ?k) (args a) @ map2 (\<lambda>x d. x @ ''='' @ d) (drop (?n - ?k) (args a)) ds"
  have filled: "apply_defaults (int ?n - int ?k) ds (args a) = Inr ?as1"
  proof -
    have "int ?n - int ?k = int (?n - ?k)" using assms(2) by simp
    moreover have "apply_defaults (int (?n - ?k)) ds (args a) = Inr ?as1"
      using apply_defaults_in_range [of "?n - ?k" ds "args a"] assms(2) by simp
    ultimately show ?thesis by (simp only:)
  qed
  have defaulted: "(case defaults a of
              None \<Rightarrow> Inr (args a)
            | Some ds \<Rightarrow>
                if ds \<noteq> [] then apply_defaults (int (length (args a)) - int (length ds)) ds (args a)
                else Inr (args a))
     = Inr ?as1"
  proof (cases "defaults a")
    case None
    with assms(1) show ?thesis by simp
  next
    case (Some ds')
    with assms(1) have eq: "ds' = ds" by simp
    show ?thesis
    proof (cases "ds = []")
      case True
      with Some eq show ?thesis by simp
    next
      case False
      with Some eq filled show ?thesis by (simp only: option.case simp_thms if_True)
    qed
  qed
  show ?thesis
    unfolding argspec_sig_def defaulted sum.case Let_def
    by (cases "varargs a"; cases "varkw a") simp_all
qed

subsection \<open>What a resolved section holds\<close>

text \<open>
  Once the identifier is resolved the title is written; then \<^verbatim>\<open>dedent\<close> either raises, which
  ends the call, or gives the content, and the call goes on to the loader context, the
  suffix of the title and the signature step. The lemmas below give the call in one
  piece for both cases and then each attribute of the section it leaves.
\<close>

lemma dedent_Nil: "dedent [] = []"
  by code_simp

lemma dedent_value_or_empty:
  "dedent_value (or_empty v) =
     (case v of
        None \<Rightarrow> Inr []
      | Some (Str d) \<Rightarrow> Inr (dedent d)
      | Some (NonStr t) \<Rightarrow> if t then Inl TypeError else Inr [])"
  by (simp add: dedent_value_def or_empty_def dedent_Nil split: option.split pyvalue.split)

lemma dedent_value_raises:
  "dedent_value (or_empty v) = Inl e \<longleftrightarrow> v = Some (NonStr True) \<and> e = TypeError"
  by (auto simp add: dedent_value_or_empty split: option.splits pyvalue.splits if_splits)


lemma load_section_dedent_raises:
  assumes "identifier s = Some ident" and "imp ident = Inr (obj, scope)"
    and "default_title_of ident = Inr dt"
    and "dedent_value (or_empty (doc_attr obj)) = Inl e"
  shows "load_section imp insp s =
    (Inl e, s\<lparr>title := Some (let t0 = (case name_attr obj of None \<Rightarrow> dt | Some n \<Rightarrow> n)
                              in if t0 = ''__init__'' then ''Constructor __init__'' else t0)\<rparr>)"
  using assms by (simp add: load_section_def Let_def)

lemma load_section_resolved:
  assumes "identifier s = Some ident" and "imp ident = Inr (obj, scope)"
    and "default_title_of ident = Inr dt"
    and "dedent_value (or_empty (doc_attr obj)) = Inr doc"
  shows "load_section imp insp s =
    (let t0 = (case name_attr obj of None \<Rightarrow> dt | Some n \<Rightarrow> n);
         t1 = (if t0 = ''__init__'' then ''Constructor __init__'' else t0);
         sfx = (if isnamedtuple obj then '' namedtuple''
                else if is_class obj then '' class''
                else if is_callable obj \<and> \<not> is_class scope then '' function''
                else []);
         s4 = s\<lparr>title := Some (t1 @ sfx), content := Some doc,
                loader_context := Some [(''obj'', obj), (''scope'', scope)]\<rparr>
     in if is_callable obj \<and> \<not> contains doc ''namedtuple''
        then (case get_function_signature insp obj (if is_class scope then Some scope else None) False of
                Inl e \<Rightarrow> (Inl e, s4)
              | Inr sig \<Rightarrow>
                  if is_class obj then (Inr (), s4)
                  else (Inr (), s4\<lparr>content := Some (''```python\<newline>'' @ sig @ ''\<newline>```\<newline>'' @ doc)\<rparr>))
        else (Inr (), s4))"
  using assms
  by (cases "get_function_signature insp obj (if is_class scope then Some scope else None) False";
      cases "isnamedtuple obj"; cases "is_class obj";
      cases "is_callable obj"; cases "is_class scope")
     (simp_all add: load_section_def Let_def)

lemma loaded_title:
  assumes "identifier s = Some ident" and "imp ident = Inr (obj, scope)"
    and "default_title_of ident = Inr dt"
  shows "title (snd (load_section imp insp s)) =
    Some ((let t = (case name_attr obj of None \<Rightarrow> dt | Some n \<Rightarrow> n)
           in if t = ''__init__'' then ''Constructor __init__'' else t)
          @ (if doc_attr obj = Some (NonStr True) then []
             else if isnamedtuple obj then '' namedtuple''
             else if is_class obj then '' class''
             else if is_callable obj \<and> \<not> is_class scope then '' function''
             else []))"
proof (cases "dedent_value (or_empty (doc_attr obj))")
  case (Inl e)
  then have "doc_attr obj = Some (NonStr True)" by (simp add: dedent_value_raises)
  then show ?thesis
    unfolding load_section_dedent_raises [where imp = imp, OF assms Inl] by (simp add: Let_def)
next
  case (Inr doc)
  then have "doc_attr obj \<noteq> Some (NonStr True)"
    using dedent_value_raises [of "doc_attr obj" TypeError] by auto
  then show ?thesis
    unfolding load_section_resolved [where imp = imp, OF assms Inr] Let_def
    by (simp split: sum.split)
qed

lemma loaded_context:
  assumes "identifier s = Some ident" and "imp ident = Inr (obj, scope)"
    and "dedent_value (or_empty (doc_attr obj)) = Inr doc"
  shows "loader_context (snd (load_section imp insp s)) = Some [(''obj'', obj), (''scope'', scope)]"
proof -
  obtain dt where dt: "default_title_of ident = Inr dt"
    using default_title_total by blast
  show ?thesis
    unfolding load_section_resolved [where imp = imp, OF assms(1,2) dt assms(3)] Let_def
    by (simp split: sum.split)
qed

lemma loaded_outcome:
  assumes "identifier s = Some ident" and "imp ident = Inr (obj, scope)"
    and "dedent_value (or_empty (doc_attr obj)) = Inr doc"
  shows "fst (load_section imp insp s) =
    (if is_callable obj \<and> \<not> contains doc ''namedtuple''
     then (case get_function_signature insp obj (if is_class scope then Some scope else None) False of
             Inl e \<Rightarrow> Inl e | Inr sig \<Rightarrow> Inr ())
     else Inr ())"
proof -
  obtain dt where dt: "default_title_of ident = Inr dt"
    using default_title_total by blast
  show ?thesis
    unfolding load_section_resolved [where imp = imp, OF assms(1,2) dt assms(3)] Let_def
    by (simp split: sum.split)
qed

lemma loaded_content:
  assumes "identifier s = Some ident" and "imp ident = Inr (obj, scope)"
    and "dedent_value (or_empty (doc_attr obj)) = Inr doc"
  shows "content (snd (load_section imp insp s)) =
    (if is_callable obj \<and> \<not> contains doc ''namedtuple'' \<and> \<not> is_class obj
     then (case get_function_signature insp obj (if is_class scope then Some scope else None) False of
             Inl e \<Rightarrow> Some doc
           | Inr sig \<Rightarrow> Some (''```python\<newline>'' @ sig @ ''\<newline>```\<newline>'' @ doc))
     else Some doc)"
proof -
  obtain dt where dt: "default_title_of ident = Inr dt"
    using default_title_total by blast
  show ?thesis
    unfolding load_section_resolved [where imp = imp, OF assms(1,2) dt assms(3)] Let_def
    by (simp split: sum.split)
qed

lemma loaded_dedent_raises:
  assumes "identifier s = Some ident" and "imp ident = Inr (obj, scope)"
    and "doc_attr obj = Some (NonStr True)"
  shows "fst (load_section imp insp s) = Inl TypeError"
    and "content (snd (load_section imp insp s)) = content s"
    and "loader_context (snd (load_section imp insp s)) = loader_context s"
proof -
  obtain dt where dt: "default_title_of ident = Inr dt"
    using default_title_total by blast
  have r: "dedent_value (or_empty (doc_attr obj)) = Inl TypeError"
    using assms(3) by (simp add: dedent_value_raises)
  note l = load_section_dedent_raises [where imp = imp and insp = insp, OF assms(1,2) dt r]
  show "fst (load_section imp insp s) = Inl TypeError" unfolding l by simp
  show "content (snd (load_section imp insp s)) = content s" unfolding l by simp
  show "loader_context (snd (load_section imp insp s)) = loader_context s" unfolding l by simp
qed

subsection \<open>The examples, evaluated\<close>

lemma example_resolved:
  "identifier (fresh_section ident) = Some ident"
  "example_resolver ''m.f'' = Inr (example_function, example_module)"
  "example_resolver ''m.C'' = Inr (example_class, example_module)"
  "example_resolver ''m.C.__init__'' = Inr (example_init, example_class)"
  "example_resolver ''m.p'' = Inr (example_partial, example_module)"
  "example_resolver ''m.pt'' = Inr (example_point, example_module)"
  "example_resolver ''m.Point'' = Inr (example_namedtuple, example_module)"
  "example_resolver ''m.x'' = Inr (example_constant, example_module)"
  "example_resolver ''m.y'' = Inr (example_documented, example_module)"
  "example_resolver ''m.g'' = Inr (example_annotated, example_module)"
  "example_resolver ''m.B'' = Inr (example_builtin_type, example_module)"
  by (simp_all add: fresh_section_def example_resolver_def)

lemma example_attrs:
  "name_attr example_function = Some ''f''"
  "is_callable example_function" "\<not> is_class example_function" "\<not> isnamedtuple example_function"
  "name_attr example_init = Some ''__init__''"
  "is_callable example_init" "\<not> is_class example_init" "\<not> isnamedtuple example_init"
  "name_attr example_partial = None"
  "is_callable example_partial" "\<not> is_class example_partial" "\<not> isnamedtuple example_partial"
  "name_attr example_point = Some ''pt''"
  "is_callable example_point" "\<not> is_class example_point" "isnamedtuple example_point"
  "name_attr example_namedtuple = Some ''Point''"
  "is_callable example_namedtuple" "is_class example_namedtuple" "isnamedtuple example_namedtuple"
  "name_attr example_constant = Some []"
  "\<not> is_callable example_constant" "\<not> is_class example_constant" "\<not> isnamedtuple example_constant"
  "name_attr example_documented = None"
  "\<not> is_callable example_documented" "\<not> is_class example_documented"
  "\<not> isnamedtuple example_documented"
  "name_attr example_builtin_type = Some ''builtin_function_or_method''"
  "is_callable example_builtin_type" "is_class example_builtin_type"
  "\<not> isnamedtuple example_builtin_type"
  "name_attr example_class = Some ''C''" "truthy example_class"
  "\<not> is_class example_module" "is_class example_class"
  by (simp_all add: example_defs isnamedtuple_def)

lemma example_docs:
  "doc_attr example_function = Some (Str ''  Add.\<newline>    more'')"
  "doc_attr example_init = None"
  "doc_attr example_partial = Some (Str ''partial'')"
  "doc_attr example_point = Some (Str ''a point'')"
  "doc_attr example_namedtuple = Some (Str ''Point(x, y)'')"
  "doc_attr example_constant = None"
  "doc_attr example_documented = Some (Str ''a\<newline> \<newline>b'')"
  "doc_attr example_builtin_type = Some (NonStr True)"
  by (simp_all add: example_defs)

lemma example_titles:
  "default_title_of ''m.f'' = Inr ''f''"
  "default_title_of ''m.C'' = Inr ''C''"
  "default_title_of ''m.C.__init__'' = Inr ''__init__''"
  "default_title_of ''m.p'' = Inr ''p''"
  "default_title_of ''m.pt'' = Inr ''pt''"
  "default_title_of ''m.Point'' = Inr ''Point''"
  "default_title_of ''m.x'' = Inr ''x''"
  "default_title_of ''m.B'' = Inr ''B''"
  by (simp_all add: default_title_of_def rsplit1_def)

lemma example_dedent:
  "dedent_value (or_empty (doc_attr example_function)) = Inr ''Add.\<newline>  more''"
  "dedent_value (or_empty (doc_attr example_init)) = Inr []"
  "dedent_value (or_empty (doc_attr example_partial)) = Inr ''partial''"
  "dedent_value (or_empty (doc_attr example_point)) = Inr ''a point''"
  "dedent_value (or_empty (doc_attr example_namedtuple)) = Inr ''Point(x, y)''"
  "dedent_value (or_empty (doc_attr example_constant)) = Inr []"
  "dedent_value (or_empty (doc_attr example_documented)) = Inr ''a\<newline>\<newline>b''"
  "dedent_value (or_empty (doc_attr example_builtin_type)) = Inl TypeError"
  by code_simp+

lemma example_contains:
  "\<not> contains [] ''namedtuple''"
  "\<not> contains ''Add.\<newline>  more'' ''namedtuple''"
  "\<not> contains ''partial'' ''namedtuple''"
  "\<not> contains ''a point'' ''namedtuple''"
  "\<not> contains ''Point(x, y)'' ''namedtuple''"
  "\<not> contains ''a\<newline>\<newline>b'' ''namedtuple''"
  by code_simp+

lemma example_signatures:
  "get_function_signature example_inspect example_function None False = Inr ''f(a, b=2, *args, **kw)''"
  "get_function_signature example_inspect2 example_function None False = Inr ''f(a, b=2, *args, **kw)''"
  "get_function_signature example_inspect example_point None False = Inr ''pt(a, b=2, *args, **kw)''"
  "get_function_signature example_inspect example_namedtuple None False = Inr ''Point(x, y)''"
  "get_function_signature example_inspect example_init (Some example_class) False
     = Inr ''C(self, a, b=2, *args, **kw)''"
  "get_function_signature example_inspect example_annotated None False
     = Inr ''g(a: int, b: int = 2) -> int''"
  "get_function_signature example_inspect example_partial None False
     = Inl (AttributeError ''__name__'')"
  by code_simp+

lemma example_margin:
  "margin_of (split (CHR ''\<newline>'') ''  Add.\<newline>    more'') = Some ''  ''"
  "dedent ''  Add.\<newline>    more'' = ''Add.\<newline>  more''"
  "or_empty (doc_attr example_function) = Str ''  Add.\<newline>    more''"
  "split (CHR ''\<newline>'') ''a\<newline> \<newline>b'' = [''a'', '' '', ''b'']"
  by code_simp+

lemma example_renderings:
  "argspec_sig \<lparr>args = [''a'', ''b''], varargs = Some ''args'', varkw = Some ''kw'',
                 defaults = Some [''2'']\<rparr> = Inr ''(a, b=2, *args, **kw)''"
  "signature_str \<lparr>parameters = example_params, return_annotation = None\<rparr>
     = ''(a, b=2, *args, **kw)''"
  by code_simp+

subsection \<open>Failure and the state of the section (C1, C10)\<close>




text \<open>
  Claim C10. \<^verbatim>\<open>get_function_signature\<close> reads \<^verbatim>\<open>__name__\<close> before it asks for the parameter
  list, so with \<^verbatim>\<open>show_module\<close> false it raises the attribute error on every callable that
  has no \<^verbatim>\<open>__name__\<close>, whatever the \<^verbatim>\<open>inspect\<close> module and the owner class are. When such a
  callable reaches the signature step (\<^verbatim>\<open>dedent\<close> has given the content \<open>doc\<close>, which does
  not contain \<^verbatim>\<open>namedtuple\<close>), \<^verbatim>\<open>load_section\<close> fails with that error, and the section
  already holds its title (the default title with the suffix), the dedented docstring
  and the loader context.
\<close>

theorem missing_name_raises:
  assumes "identifier s = Some ident" and "imp ident = Inr (obj, scope)"
    and "is_callable obj"
    and "dedent_value (or_empty (doc_attr obj)) = Inr doc"
    and "\<not> contains doc ''namedtuple''"
    and "name_attr obj = None"
  shows "fst (load_section imp insp s) = Inl (AttributeError ''__name__'')
    \<and> (\<exists>dt. default_title_of ident = Inr dt \<and>
          title (snd (load_section imp insp s)) =
            Some ((if dt = ''__init__'' then ''Constructor __init__'' else dt)
                  @ (if isnamedtuple obj then '' namedtuple''
                     else if is_class obj then '' class''
                     else if \<not> is_class scope then '' function''
                     else [])))
    \<and> content (snd (load_section imp insp s)) = Some doc
    \<and> loader_context (snd (load_section imp insp s)) = Some [(''obj'', obj), (''scope'', scope)]
    \<and> (\<forall>insp' owner_class. get_function_signature insp' obj owner_class False
          = Inl (AttributeError ''__name__''))"
proof -
  have sig: "get_function_signature insp' obj owner_class False = Inl (AttributeError ''__name__'')"
    for insp' owner_class
    using assms(6) by (simp add: get_function_signature_def split: option.split)
  obtain dt where dt: "default_title_of ident = Inr dt"
    using default_title_total by blast
  have nd: "doc_attr obj \<noteq> Some (NonStr True)"
    using assms(4) dedent_value_raises [of "doc_attr obj" TypeError] by auto
  have "fst (load_section imp insp s) = Inl (AttributeError ''__name__'')"
    unfolding loaded_outcome [where imp = imp, OF assms(1,2,4)] using assms(3,5) sig by simp
  moreover have "title (snd (load_section imp insp s)) =
            Some ((if dt = ''__init__'' then ''Constructor __init__'' else dt)
                  @ (if isnamedtuple obj then '' namedtuple''
                     else if is_class obj then '' class''
                     else if \<not> is_class scope then '' function''
                     else []))"
    unfolding loaded_title [where imp = imp, OF assms(1,2) dt] using assms(3,6) nd by simp
  moreover have "content (snd (load_section imp insp s)) = Some doc"
    unfolding loaded_content [where imp = imp, OF assms(1,2,4)] using sig by simp
  ultimately show ?thesis
    using dt sig loaded_context [where imp = imp, OF assms(1,2,4)] by blast
qed

theorem missing_name_raises_witness:
  "is_callable example_partial
   \<and> name_attr example_partial = None
   \<and> fst (load_section example_resolver example_inspect (fresh_section ''m.p''))
        = Inl (AttributeError ''__name__'')
   \<and> title (snd (load_section example_resolver example_inspect (fresh_section ''m.p'')))
        = Some ''p function''
   \<and> content (snd (load_section example_resolver example_inspect (fresh_section ''m.p'')))
        = Some ''partial''
   \<and> loader_context (snd (load_section example_resolver example_inspect (fresh_section ''m.p'')))
        = Some [(''obj'', example_partial), (''scope'', example_module)]"
proof -
  note h = example_resolved(1) [of "''m.p''"] example_resolved(5)
  have c: "is_callable example_partial" and m: "name_attr example_partial = None"
    by (rule example_attrs)+
  have n: "\<not> contains ''partial'' ''namedtuple''" by (rule example_contains)
  show ?thesis
    using c m missing_name_raises [where imp = example_resolver and insp = example_inspect,
        OF h c example_dedent(3) n m]
    by (simp add: example_attrs example_titles)
qed

subsection \<open>The signature block (C2, C3)\<close>

text \<open>
  Claim C2 says that for every callable whose dedented docstring does not contain
  \<^verbatim>\<open>namedtuple\<close> the signature is computed and prepended exactly when the entity is not a
  class. The partial object \<^verbatim>\<open>m.p\<close> is such a callable and not a class, and its content
  gets no signature block: computing the signature raises, and the call fails.
\<close>

theorem signature_block_counterexample:
  "is_callable example_partial
   \<and> \<not> is_class example_partial
   \<and> dedent_value (or_empty (doc_attr example_partial)) = Inr ''partial''
   \<and> \<not> contains ''partial'' ''namedtuple''
   \<and> fst (load_section example_resolver example_inspect (fresh_section ''m.p''))
        = Inl (AttributeError ''__name__'')
   \<and> content (snd (load_section example_resolver example_inspect (fresh_section ''m.p'')))
        = Some ''partial''"
proof -
  note h = example_resolved(1) [of "''m.p''"] example_resolved(5)
  note d = example_dedent(3)
  have "fst (load_section example_resolver example_inspect (fresh_section ''m.p''))
        = Inl (AttributeError ''__name__'')"
    unfolding loaded_outcome [where imp = example_resolver, OF h d]
    by (simp add: example_attrs example_contains example_signatures)
  moreover have "content (snd (load_section example_resolver example_inspect (fresh_section ''m.p'')))
        = Some ''partial''"
    unfolding loaded_content [where imp = example_resolver, OF h d]
    by (simp add: example_attrs example_contains example_signatures)
  ultimately show ?thesis
    using d example_attrs(10,11) example_contains(3) by (intro conjI)
qed

text \<open>
  Claim C2, amended. For a resolved callable whose dedented docstring \<open>doc\<close> does not
  contain \<^verbatim>\<open>namedtuple\<close>, the signature is computed. If that raises, the call fails with
  the same error and the content stays \<open>doc\<close>. Otherwise the call returns and the content
  is \<open>doc\<close> for a class, and the fenced block with the signature followed by \<open>doc\<close> for
  anything else: the block is there exactly when the entity is not a class.
\<close>

theorem signature_block:
  assumes "identifier s = Some ident" and "imp ident = Inr (obj, scope)"
    and "is_callable obj"
    and "dedent_value (or_empty (doc_attr obj)) = Inr doc"
    and "\<not> contains doc ''namedtuple''"
  shows "case get_function_signature insp obj (if is_class scope then Some scope else None) False of
      Inl e \<Rightarrow>
        fst (load_section imp insp s) = Inl e \<and>
        content (snd (load_section imp insp s)) = Some doc
      | Inr sig \<Rightarrow>
        fst (load_section imp insp s) = Inr () \<and>
        content (snd (load_section imp insp s)) =
          Some (if is_class obj then doc
                else ''```python\<newline>'' @ sig @ ''\<newline>```\<newline>'' @ doc) \<and>
        ((content (snd (load_section imp insp s)) =
            Some (''```python\<newline>'' @ sig @ ''\<newline>```\<newline>'' @ doc))
         = (\<not> is_class obj))"
  unfolding loaded_outcome [where imp = imp, OF assms(1,2,4)]
    loaded_content [where imp = imp, OF assms(1,2,4)]
  using assms(3,5) by (simp split: sum.split)

theorem signature_block_witness:
  "is_callable example_function
   \<and> dedent_value (or_empty (doc_attr example_function)) = Inr ''Add.\<newline>  more''
   \<and> \<not> contains ''Add.\<newline>  more'' ''namedtuple''
   \<and> fst (load_section example_resolver example_inspect (fresh_section ''m.f'')) = Inr ()
   \<and> content (snd (load_section example_resolver example_inspect (fresh_section ''m.f'')))
        = Some ''```python\<newline>f(a, b=2, *args, **kw)\<newline>```\<newline>Add.\<newline>  more''"
proof -
  note h = example_resolved(1) [of "''m.f''"] example_resolved(2)
  have c: "is_callable example_function" by (rule example_attrs)
  note d = example_dedent(1)
  have n: "\<not> contains ''Add.\<newline>  more'' ''namedtuple''" by (rule example_contains)
  show ?thesis
    using c d n signature_block [where imp = example_resolver and insp = example_inspect, OF h c d n]
    by (simp add: example_attrs example_signatures)
qed

text \<open>
  Claim C3 says that an entity that passes the named-tuple check gets a title ending in
  \<open>'' namedtuple''\<close> and no signature block; the comment over the signature step says the
  same (\<^verbatim>\<open>Ignore namedtuple signature\<close>). The loader does not keep to it: the signature step
  looks for the word \<^verbatim>\<open>namedtuple\<close> in the docstring instead of asking \<^verbatim>\<open>isnamedtuple\<close>. The
  function \<^verbatim>\<open>m.pt\<close> passes the check and is titled \<^verbatim>\<open>pt namedtuple\<close>, and its content starts
  with the signature block.
\<close>

theorem namedtuple_gets_signature_block:
  "isnamedtuple example_point
   \<and> fst (load_section example_resolver example_inspect (fresh_section ''m.pt'')) = Inr ()
   \<and> title (snd (load_section example_resolver example_inspect (fresh_section ''m.pt'')))
        = Some ''pt namedtuple''
   \<and> content (snd (load_section example_resolver example_inspect (fresh_section ''m.pt'')))
        = Some ''```python\<newline>pt(a, b=2, *args, **kw)\<newline>```\<newline>a point''"
proof -
  note h = example_resolved(1) [of "''m.pt''"] example_resolved(6)
  note d = example_dedent(4)
  have "fst (load_section example_resolver example_inspect (fresh_section ''m.pt'')) = Inr ()"
    unfolding loaded_outcome [where imp = example_resolver, OF h d]
    by (simp add: example_attrs example_contains example_signatures)
  moreover have "title (snd (load_section example_resolver example_inspect (fresh_section ''m.pt'')))
        = Some ''pt namedtuple''"
    unfolding loaded_title [where imp = example_resolver, OF h example_titles(5)]
    by (simp add: example_attrs example_docs)
  moreover have "content (snd (load_section example_resolver example_inspect (fresh_section ''m.pt'')))
        = Some ''```python\<newline>pt(a, b=2, *args, **kw)\<newline>```\<newline>a point''"
    unfolding loaded_content [where imp = example_resolver, OF h d]
    by (simp add: example_attrs example_contains example_signatures)
  ultimately show ?thesis using example_attrs(16) by (intro conjI)
qed

subsection \<open>The title (C4, C5, C8)\<close>

text \<open>
  Claim C4 says that for every resolved entity the suffix of the title is that of the
  first matching rule. The class \<^verbatim>\<open>m.B\<close> matches the rule for classes, but its \<^verbatim>\<open>__doc__\<close> is
  not a string: \<^verbatim>\<open>dedent\<close> raises before the suffix is appended, and the title stays without
  \<open>'' class''\<close>.
\<close>

theorem title_suffix_order_counterexample:
  "is_class example_builtin_type
   \<and> \<not> isnamedtuple example_builtin_type
   \<and> fst (load_section example_resolver example_inspect (fresh_section ''m.B'')) = Inl TypeError
   \<and> title (snd (load_section example_resolver example_inspect (fresh_section ''m.B'')))
        = Some ''builtin_function_or_method''"
proof -
  note h = example_resolved(1) [of "''m.B''"] example_resolved(11)
  have "title (snd (load_section example_resolver example_inspect (fresh_section ''m.B'')))
        = Some ''builtin_function_or_method''"
    unfolding loaded_title [where imp = example_resolver, OF h example_titles(8)]
    by (simp add: example_attrs example_docs)
  with loaded_dedent_raises(1) [where imp = example_resolver and insp = example_inspect,
      OF h example_docs(8)] example_attrs(31,32)
  show ?thesis by (intro conjI)
qed

text \<open>
  Claim C4, amended. For every resolved entity whose \<^verbatim>\<open>__doc__\<close> is absent, falsy or a
  string, the title is the title written first followed by the suffix of the first rule
  that matches, in this order: \<open>'' namedtuple''\<close> for an object that passes the named-tuple
  check; else \<open>'' class''\<close> for a class; else \<open>'' function''\<close> for a callable whose scope is
  not a class; else no suffix. This is the title of the section also when the signature
  step raises afterwards. For an entity whose \<^verbatim>\<open>__doc__\<close> is truthy and not a string the
  title has no suffix.
\<close>

theorem title_suffix_order:
  assumes "identifier s = Some ident" and "imp ident = Inr (obj, scope)"
  shows "\<exists>dt. default_title_of ident = Inr dt \<and>
    title (snd (load_section imp insp s)) =
      Some ((let t = (case name_attr obj of None \<Rightarrow> dt | Some n \<Rightarrow> n)
             in if t = ''__init__'' then ''Constructor __init__'' else t)
            @ (if doc_attr obj = Some (NonStr True) then []
               else if isnamedtuple obj then '' namedtuple''
               else if is_class obj then '' class''
               else if is_callable obj \<and> \<not> is_class scope then '' function''
               else []))"
proof -
  obtain dt where dt: "default_title_of ident = Inr dt"
    using default_title_total by blast
  from loaded_title [where imp = imp, OF assms dt] dt show ?thesis by blast
qed

theorem title_suffix_order_witness:
  "title (snd (load_section example_resolver example_inspect (fresh_section ''m.f''))) = Some ''f function''
   \<and> title (snd (load_section example_resolver example_inspect (fresh_section ''m.C''))) = Some ''C class''
   \<and> title (snd (load_section example_resolver example_inspect (fresh_section ''m.C.__init__''))) = Some ''Constructor __init__''
   \<and> title (snd (load_section example_resolver example_inspect (fresh_section ''m.pt''))) = Some ''pt namedtuple''"
proof -
  note dt = example_titles
  have "title (snd (load_section example_resolver example_inspect (fresh_section ''m.f''))) = Some ''f function''"
    using title_suffix_order [of "fresh_section ''m.f''" "''m.f''" example_resolver
        example_function example_module example_inspect] dt
    by (simp add: example_defs isnamedtuple_def)
  moreover have "title (snd (load_section example_resolver example_inspect (fresh_section ''m.C''))) = Some ''C class''"
    using title_suffix_order [of "fresh_section ''m.C''" "''m.C''" example_resolver
        example_class example_module example_inspect] dt
    by (simp add: example_defs isnamedtuple_def)
  moreover have "title (snd (load_section example_resolver example_inspect (fresh_section ''m.C.__init__''))) = Some ''Constructor __init__''"
    using title_suffix_order [of "fresh_section ''m.C.__init__''" "''m.C.__init__''" example_resolver
        example_init example_class example_inspect] dt
    by (simp add: example_defs isnamedtuple_def)
  moreover have "title (snd (load_section example_resolver example_inspect (fresh_section ''m.pt''))) = Some ''pt namedtuple''"
    using title_suffix_order [of "fresh_section ''m.pt''" "''m.pt''" example_resolver
        example_point example_module example_inspect] dt
    by (simp add: example_defs isnamedtuple_def)
  ultimately show ?thesis by blast
qed

text \<open>
  Claim C5. The title before the suffix is the part of the identifier after its last dot
  (the whole identifier when it has no dot), replaced by \<^verbatim>\<open>__name__\<close> when the entity has
  that attribute; and \<^verbatim>\<open>__init__\<close> becomes \<^verbatim>\<open>Constructor __init__\<close>.
\<close>

theorem title_derivation:
  assumes "identifier s = Some ident" and "imp ident = Inr (obj, scope)"
  shows "\<exists>dt suffix.
      (if CHR ''.'' \<in> set ident
       then (\<exists>pre. ident = pre @ ''.'' @ dt) \<and> CHR ''.'' \<notin> set dt
       else dt = ident)
    \<and> suffix \<in> {[], '' namedtuple'', '' class'', '' function''}
    \<and> title (snd (load_section imp insp s)) =
        Some ((let t = (case name_attr obj of None \<Rightarrow> dt | Some n \<Rightarrow> n)
               in if t = ''__init__'' then ''Constructor __init__'' else t) @ suffix)"
proof -
  obtain dt where dt: "default_title_of ident = Inr dt"
    using default_title_total by blast
  have seg: "if CHR ''.'' \<in> set ident
       then (\<exists>pre. ident = pre @ ''.'' @ dt) \<and> CHR ''.'' \<notin> set dt
       else dt = ident"
    using dt default_title_dot [of ident] default_title_nodot [of ident] by auto
  let ?sfx = "if doc_attr obj = Some (NonStr True) then []
              else if isnamedtuple obj then '' namedtuple''
              else if is_class obj then '' class''
              else if is_callable obj \<and> \<not> is_class scope then '' function''
              else []"
  have "?sfx \<in> {[], '' namedtuple'', '' class'', '' function''}" by simp
  with seg loaded_title [where imp = imp, OF assms dt] show ?thesis by blast
qed

theorem title_derivation_witness:
  "identifier (fresh_section ''m.C.__init__'') = Some ''m.C.__init__''
   \<and> example_resolver ''m.C.__init__'' = Inr (example_init, example_class)
   \<and> (\<exists>dt suffix.
        (if CHR ''.'' \<in> set ''m.C.__init__''
         then (\<exists>pre. ''m.C.__init__'' = pre @ ''.'' @ dt) \<and> CHR ''.'' \<notin> set dt
         else dt = ''m.C.__init__'')
      \<and> suffix \<in> {[], '' namedtuple'', '' class'', '' function''}
      \<and> title (snd (load_section example_resolver example_inspect (fresh_section ''m.C.__init__''))) =
          Some ((let t = (case name_attr example_init of None \<Rightarrow> dt | Some n \<Rightarrow> n)
                 in if t = ''__init__'' then ''Constructor __init__'' else t) @ suffix))
   \<and> title (snd (load_section example_resolver example_inspect (fresh_section ''m.C.__init__'')))
        = Some ''Constructor __init__''"
proof -
  note h = example_resolved(1) [of "''m.C.__init__''"] example_resolved(4)
  have "title (snd (load_section example_resolver example_inspect (fresh_section ''m.C.__init__'')))
        = Some ''Constructor __init__''"
    unfolding loaded_title [where imp = example_resolver, OF h example_titles(3)]
    by (simp add: example_attrs example_docs)
  with h title_derivation [where imp = example_resolver and insp = example_inspect, OF h]
  show ?thesis by (intro conjI)
qed

text \<open>
  Claim C8 says that the title of a loaded section is never empty. The object \<^verbatim>\<open>m.x\<close> has
  the empty string as its \<^verbatim>\<open>__name__\<close> and gets no suffix: the call returns and the title
  is empty.
\<close>

theorem title_nonempty_counterexample:
  "fst (load_section example_resolver example_inspect (fresh_section ''m.x'')) = Inr ()
   \<and> title (snd (load_section example_resolver example_inspect (fresh_section ''m.x''))) = Some []"
proof -
  note h = example_resolved(1) [of "''m.x''"] example_resolved(8)
  have "fst (load_section example_resolver example_inspect (fresh_section ''m.x'')) = Inr ()"
    unfolding loaded_outcome [where imp = example_resolver, OF h example_dedent(6)]
    by (simp add: example_attrs)
  moreover have "title (snd (load_section example_resolver example_inspect (fresh_section ''m.x''))) = Some []"
    unfolding loaded_title [where imp = example_resolver, OF h example_titles(7)]
    by (simp add: example_attrs example_docs)
  ultimately show ?thesis by (intro conjI)
qed

text \<open>
  Claim C8, amended. The title is not empty when a suffix is appended (a rule matches and
  \<^verbatim>\<open>dedent\<close> has not raised before), or the entity has a non-empty \<^verbatim>\<open>__name__\<close>, or it has no
  \<^verbatim>\<open>__name__\<close> and the identifier is not empty and does not end in a dot. Without a
  \<^verbatim>\<open>__name__\<close> the title is the last segment of the identifier (\<^verbatim>\<open>Constructor __init__\<close> for
  \<^verbatim>\<open>__init__\<close>) followed by the suffix, if one is appended.
\<close>

theorem title_nonempty:
  assumes "identifier s = Some ident" and "imp ident = Inr (obj, scope)"
    and "(doc_attr obj \<noteq> Some (NonStr True)
          \<and> (isnamedtuple obj \<or> is_class obj \<or> (is_callable obj \<and> \<not> is_class scope)))
         \<or> (case name_attr obj of Some n \<Rightarrow> n \<noteq> [] | None \<Rightarrow> ident \<noteq> [] \<and> last ident \<noteq> CHR ''.'')"
  shows "\<exists>t dt. title (snd (load_section imp insp s)) = Some t \<and> t \<noteq> []
    \<and> default_title_of ident = Inr dt
    \<and> (name_attr obj = None \<longrightarrow>
          t = (if dt = ''__init__'' then ''Constructor __init__'' else dt)
              @ (if doc_attr obj = Some (NonStr True) then []
                 else if isnamedtuple obj then '' namedtuple''
                 else if is_class obj then '' class''
                 else if is_callable obj \<and> \<not> is_class scope then '' function''
                 else []))"
proof -
  obtain dt where dt: "default_title_of ident = Inr dt"
    using default_title_total by blast
  let ?t0 = "case name_attr obj of None \<Rightarrow> dt | Some n \<Rightarrow> n"
  let ?t1 = "if ?t0 = ''__init__'' then ''Constructor __init__'' else ?t0"
  let ?sfx = "if doc_attr obj = Some (NonStr True) then []
                 else if isnamedtuple obj then '' namedtuple''
                 else if is_class obj then '' class''
                 else if is_callable obj \<and> \<not> is_class scope then '' function''
                 else []"
  define T where "T = ?t1 @ ?sfx"
  have t: "title (snd (load_section imp insp s)) = Some T"
    unfolding T_def using loaded_title [where imp = imp, OF assms(1,2) dt] by (simp add: Let_def)
  have "?t1 @ ?sfx \<noteq> []"
  proof (cases "doc_attr obj \<noteq> Some (NonStr True)
          \<and> (isnamedtuple obj \<or> is_class obj \<or> (is_callable obj \<and> \<not> is_class scope))")
    case True
    then have "?sfx \<noteq> []" by auto
    then show ?thesis by blast
  next
    case False
    with assms(3) have "case name_attr obj of Some n \<Rightarrow> n \<noteq> [] | None \<Rightarrow> ident \<noteq> [] \<and> last ident \<noteq> CHR ''.''"
      by blast
    then have "?t0 \<noteq> []"
      using default_title_nonempty [OF dt] by (cases "name_attr obj") auto
    then have "?t1 \<noteq> []" by simp
    then show ?thesis by blast
  qed
  then have ne: "T \<noteq> []" unfolding T_def .
  have fb: "name_attr obj = None \<longrightarrow> T =
          (if dt = ''__init__'' then ''Constructor __init__'' else dt) @ ?sfx"
    unfolding T_def by simp
  have "\<exists>dt. title (snd (load_section imp insp s)) = Some T \<and> T \<noteq> []
    \<and> default_title_of ident = Inr dt
    \<and> (name_attr obj = None \<longrightarrow>
          T = (if dt = ''__init__'' then ''Constructor __init__'' else dt) @ ?sfx)"
    by (rule exI [of _ dt]) (intro conjI t ne dt fb)
  then show ?thesis by (rule exI [of _ T])
qed

theorem title_nonempty_witness:
  "(case name_attr example_function of Some n \<Rightarrow> n \<noteq> [] | None \<Rightarrow> ''m.f'' \<noteq> [] \<and> last ''m.f'' \<noteq> CHR ''.'')
   \<and> (\<exists>t. title (snd (load_section example_resolver example_inspect (fresh_section ''m.f''))) = Some t
          \<and> t \<noteq> [])"
proof -
  note h = example_resolved(1) [of "''m.f''"] example_resolved(2)
  have n: "case name_attr example_function of Some n \<Rightarrow> n \<noteq> [] | None \<Rightarrow> ''m.f'' \<noteq> [] \<and> last ''m.f'' \<noteq> CHR ''.''"
    by (simp add: example_attrs)
  then have "(doc_attr example_function \<noteq> Some (NonStr True)
        \<and> (isnamedtuple example_function \<or> is_class example_function
            \<or> (is_callable example_function \<and> \<not> is_class example_module)))
      \<or> (case name_attr example_function of Some n \<Rightarrow> n \<noteq> [] | None \<Rightarrow> ''m.f'' \<noteq> [] \<and> last ''m.f'' \<noteq> CHR ''.'')"
    by blast
  from title_nonempty [where imp = example_resolver and insp = example_inspect, OF h this] n
  show ?thesis by blast
qed

subsection \<open>The dedented docstring (C7)\<close>

text \<open>
  Claim C7 says that the content is the docstring with the longest whitespace prefix
  common to its non-blank lines removed from every line, and the docstring itself when
  there is no such prefix. The docstring of \<^verbatim>\<open>m.y\<close> has the lines \<^verbatim>\<open>a\<close>, one space, \<^verbatim>\<open>b\<close>:
  the lines \<^verbatim>\<open>a\<close> and \<^verbatim>\<open>b\<close> have no common indentation, and the content is not the
  docstring, since the line of one space is emptied.
\<close>

theorem content_dedent_counterexample:
  "doc_attr example_documented = Some (Str ''a\<newline> \<newline>b'')
   \<and> split (CHR ''\<newline>'') ''a\<newline> \<newline>b'' = [''a'', '' '', ''b'']
   \<and> fst (load_section example_resolver example_inspect (fresh_section ''m.y'')) = Inr ()
   \<and> content (snd (load_section example_resolver example_inspect (fresh_section ''m.y'')))
        = Some ''a\<newline>\<newline>b''"
proof -
  note h = example_resolved(1) [of "''m.y''"] example_resolved(9)
  note d = example_dedent(7)
  have "fst (load_section example_resolver example_inspect (fresh_section ''m.y'')) = Inr ()"
    unfolding loaded_outcome [where imp = example_resolver, OF h d]
    by (simp add: example_attrs)
  moreover have "content (snd (load_section example_resolver example_inspect (fresh_section ''m.y'')))
        = Some ''a\<newline>\<newline>b''"
    unfolding loaded_content [where imp = example_resolver, OF h d]
    by (simp add: example_attrs)
  ultimately show ?thesis using example_docs(7) example_margin(4) by (intro conjI)
qed

text \<open>
  Claim C7, amended. For a resolved entity whose \<^verbatim>\<open>__doc__\<close> is absent, falsy or a string,
  with \<open>doc\<close> the docstring (the empty string when absent or falsy), the content before
  any signature block is \<^verbatim>\<open>textwrap.dedent\<close> of \<open>doc\<close>: with \<open>M\<close> the longest prefix of
  spaces and tabs common to all lines that have another character, every line made only
  of spaces and tabs is emptied and every other line loses \<open>M\<close>. The content is \<open>doc\<close>
  unchanged when \<open>M\<close> is empty and no line is made only of spaces and tabs.
\<close>

theorem content_dedent:
  fixes obj :: pyobj
  assumes "identifier s = Some ident" and "imp ident = Inr (obj, scope)"
    and "or_empty (doc_attr obj) = Str doc"
  defines "ls \<equiv> split (CHR ''\<newline>'') doc"
  shows "\<exists>M.
      (content (snd (load_section imp insp s)) = Some (dedent doc)
       \<or> (\<exists>sig. content (snd (load_section imp insp s)) =
              Some (''```python\<newline>'' @ sig @ ''\<newline>```\<newline>'' @ dedent doc)))
    \<and> dedent doc =
        join ''\<newline>'' (map (\<lambda>l. if list_all ws l then [] else drop (length M) l) ls)
    \<and> list_all ws M
    \<and> (\<forall>l\<in>set ls. \<not> list_all ws l \<longrightarrow> prefix M l)
    \<and> (\<forall>p. list_all ws p \<and> (\<forall>l\<in>set ls. \<not> list_all ws l \<longrightarrow> prefix p l)
             \<and> (\<exists>l\<in>set ls. \<not> list_all ws l) \<longrightarrow> prefix p M)
    \<and> (M = [] \<and> (\<forall>l\<in>set ls. \<not> whitespace_only l) \<longrightarrow> dedent doc = doc)"
proof -
  define M where "M = (case margin_of ls of None \<Rightarrow> [] | Some m \<Rightarrow> m)"
  have dv: "dedent_value (or_empty (doc_attr obj)) = Inr (dedent doc)"
    using assms(3) by (simp add: dedent_value_def)
  have c: "content (snd (load_section imp insp s)) = Some (dedent doc)
       \<or> (\<exists>sig. content (snd (load_section imp insp s)) =
              Some (''```python\<newline>'' @ sig @ ''\<newline>```\<newline>'' @ dedent doc))"
    unfolding loaded_content [where imp = imp, OF assms(1,2) dv]
    by (simp split: sum.split)
  have d: "dedent doc =
        join ''\<newline>'' (map (\<lambda>l. if list_all ws l then [] else drop (length M) l) ls)"
    unfolding M_def ls_def by (rule dedent_lines)
  have m: "list_all ws M \<and> (\<forall>l\<in>set ls. \<not> list_all ws l \<longrightarrow> prefix M l)
    \<and> (\<forall>p. list_all ws p \<and> (\<forall>l\<in>set ls. \<not> list_all ws l \<longrightarrow> prefix p l)
             \<and> (\<exists>l\<in>set ls. \<not> list_all ws l) \<longrightarrow> prefix p M)"
  proof (cases "margin_of ls")
    case None
    then have "\<forall>l\<in>set ls. list_all ws l" by (simp add: margin_of_None)
    with None show ?thesis by (simp add: M_def)
  next
    case (Some m)
    then have "M = m" by (simp add: M_def)
    with margin_lines [OF Some] show ?thesis by blast
  qed
  have u: "M = [] \<and> (\<forall>l\<in>set ls. \<not> whitespace_only l) \<longrightarrow> dedent doc = doc"
    using dedent_unchanged [of doc] unfolding M_def ls_def by blast
  from c d m u show ?thesis by blast
qed

theorem content_dedent_witness:
  "identifier (fresh_section ''m.f'') = Some ''m.f''
   \<and> example_resolver ''m.f'' = Inr (example_function, example_module)
   \<and> or_empty (doc_attr example_function) = Str ''  Add.\<newline>    more''
   \<and> (\<exists>M. dedent ''  Add.\<newline>    more'' =
            join ''\<newline>'' (map (\<lambda>l. if list_all ws l then [] else drop (length M) l)
                             (split (CHR ''\<newline>'') ''  Add.\<newline>    more''))
          \<and> list_all ws M)
   \<and> margin_of (split (CHR ''\<newline>'') ''  Add.\<newline>    more'') = Some ''  ''
   \<and> dedent ''  Add.\<newline>    more'' = ''Add.\<newline>  more''
   \<and> content (snd (load_section example_resolver example_inspect (fresh_section ''m.f'')))
        = Some ''```python\<newline>f(a, b=2, *args, **kw)\<newline>```\<newline>Add.\<newline>  more''"
proof -
  note h = example_resolved(1) [of "''m.f''"] example_resolved(2)
  note t = content_dedent [where imp = example_resolver and insp = example_inspect,
      OF h example_margin(3)]
  from t have "\<exists>M. dedent ''  Add.\<newline>    more'' =
            join ''\<newline>'' (map (\<lambda>l. if list_all ws l then [] else drop (length M) l)
                             (split (CHR ''\<newline>'') ''  Add.\<newline>    more''))
          \<and> list_all ws M"
    by (elim exE conjE) (intro exI conjI; assumption)
  moreover have "content (snd (load_section example_resolver example_inspect (fresh_section ''m.f'')))
        = Some ''```python\<newline>f(a, b=2, *args, **kw)\<newline>```\<newline>Add.\<newline>  more''"
    unfolding loaded_content [where imp = example_resolver, OF h example_dedent(1)]
    by (simp add: example_attrs example_contains example_signatures)
  ultimately show ?thesis
    using h example_margin(1,2,3) by (intro conjI)
qed

subsection \<open>The formatted signature (C6)\<close>

lemma render_params_plain:
  "\<forall>p\<in>set ps. pkind p \<noteq> POSITIONAL_ONLY \<and> pkind p \<noteq> KEYWORD_ONLY \<Longrightarrow>
   render_params False k ps = map param_str ps"
  by (induction ps arbitrary: k) auto

lemma param_str_plain:
  "pannotation p = None \<Longrightarrow>
   param_str p =
     (if pkind p = VAR_POSITIONAL then ''*'' else if pkind p = VAR_KEYWORD then ''**'' else [])
     @ pname p @ (case pdefault p of None \<Rightarrow> [] | Some d \<Rightarrow> ''='' @ d)"
  by (simp add: param_str_def Let_def split: option.split)

lemma get_function_signature_named:
  assumes "name_attr f = Some n"
    and "show_module \<longrightarrow> module_attr f = Some m"
    and "\<forall>c. owner_class = Some c \<and> truthy c \<longrightarrow> name_attr c = Some cn"
  shows "get_function_signature insp f owner_class show_module =
     (case (case signature insp of
              Some inspect_signature \<Rightarrow>
                (case inspect_signature f of Inl e \<Rightarrow> Inl e | Inr sg \<Rightarrow> Inr (signature_str sg))
            | None \<Rightarrow> (case getargspec insp f of Inl e \<Rightarrow> Inl e | Inr a \<Rightarrow> argspec_sig a)) of
        Inl e \<Rightarrow> Inl e
      | Inr sig \<Rightarrow>
          Inr (join ''.'' ((if show_module then [m] else [])
                 @ (case owner_class of None \<Rightarrow> [] | Some c \<Rightarrow> if truthy c then [cn] else [])
                 @ (if n = ''__init__'' then [] else [n]))
               @ sig))"
proof -
  have parts1: "(if show_module
            then (case module_attr f of
                    None \<Rightarrow> Inl (AttributeError ''__module__'')
                  | Some m \<Rightarrow> Inr [m])
            else Inr []) = Inr (if show_module then [m] else [])"
    using assms(2) by simp
  have parts2: "(case owner_class of
              None \<Rightarrow> Inr ps
            | Some oc \<Rightarrow>
                if truthy oc
                then (case name_attr oc of
                        None \<Rightarrow> Inl (AttributeError ''__name__'')
                      | Some n \<Rightarrow> Inr (ps @ [n]))
                else Inr ps)
      = Inr (ps @ (case owner_class of None \<Rightarrow> [] | Some c \<Rightarrow> if truthy c then [cn] else []))"
    for ps :: "string list"
    using assms(3) by (cases owner_class) auto
  show ?thesis
    unfolding get_function_signature_def parts1 parts2 sum.case assms(1) option.case Let_def
    by (simp split: sum.split)
qed

text \<open>
  Claim C6 says that the result is the dotted name followed by the parenthesized
  comma-joined parameter list. For the function \<^verbatim>\<open>g(a: int, b: int = 2) -> int\<close> the text of
  \<^verbatim>\<open>inspect.signature\<close> goes on after the closing parenthesis with the return annotation.
\<close>

theorem format_signature_counterexample:
  "name_attr example_annotated = Some ''g''
   \<and> example_signature example_annotated =
       Inr \<lparr>parameters =
              [\<lparr>pname = ''a'', pkind = POSITIONAL_OR_KEYWORD, pdefault = None,
                pannotation = Some ''int''\<rparr>,
               \<lparr>pname = ''b'', pkind = POSITIONAL_OR_KEYWORD, pdefault = Some ''2'',
                pannotation = Some ''int''\<rparr>],
            return_annotation = Some ''int''\<rparr>
   \<and> get_function_signature example_inspect example_annotated None False
       = Inr ''g(a: int, b: int = 2) -> int''"
proof -
  have "name_attr example_annotated = Some ''g''" by (simp add: example_annotated_def)
  moreover have "example_signature example_annotated =
       Inr \<lparr>parameters =
              [\<lparr>pname = ''a'', pkind = POSITIONAL_OR_KEYWORD, pdefault = None,
                pannotation = Some ''int''\<rparr>,
               \<lparr>pname = ''b'', pkind = POSITIONAL_OR_KEYWORD, pdefault = Some ''2'',
                pannotation = Some ''int''\<rparr>],
            return_annotation = Some ''int''\<rparr>"
    by (simp add: example_signature_def example_annotated_def)
  ultimately show ?thesis using example_signatures(6) by (intro conjI)
qed

text \<open>
  Claim C6, amended. When the attributes it reads are there, \<^verbatim>\<open>get_function_signature\<close>
  returns the dotted name followed by the parameter text. The dotted name joins, with
  dots, the module name when \<^verbatim>\<open>show_module\<close> is set, the name of the owner class when there
  is one (and it is truthy), and the name of the callable unless that is \<^verbatim>\<open>__init__\<close>.
  Where \<^verbatim>\<open>inspect\<close> has \<^verbatim>\<open>signature\<close>, the parameter text is \<^verbatim>\<open>str(inspect.signature(function))\<close>:
  the parameter list in parentheses, joined by a comma and a space, followed by \<^verbatim>\<open> -> \<close> and
  the return annotation when there is one; for parameters without annotations, none of
  them positional-only or keyword-only, each entry is the name, with \<^verbatim>\<open>=default\<close> after
  it and one or two stars before it as the parameter has them. Otherwise the text is built
  from the argspec: in parentheses and joined by a comma and a space, the arguments without
  default, the arguments with \<^verbatim>\<open>=default\<close>, \<^verbatim>\<open>*varargs\<close> and \<^verbatim>\<open>**keywords\<close>. For the plain
  function \<^verbatim>\<open>f(a, b=2, *args, **kw)\<close>, with no owner class and without the module, the
  result is \<^verbatim>\<open>f(a, b=2, *args, **kw)\<close> on both paths.
\<close>

theorem format_signature:
  assumes "name_attr f = Some n"
    and "show_module \<longrightarrow> module_attr f = Some m"
    and "\<forall>c. owner_class = Some c \<and> truthy c \<longrightarrow> name_attr c = Some cn"
  shows "get_function_signature insp f owner_class show_module =
     (case (case signature insp of
              Some inspect_signature \<Rightarrow>
                (case inspect_signature f of
                   Inl e \<Rightarrow> Inl e
                 | Inr sg \<Rightarrow>
                     Inr (''('' @ join '', '' (render_params False True (parameters sg)) @ '')''
                          @ (case return_annotation sg of None \<Rightarrow> [] | Some a \<Rightarrow> '' -> '' @ a)))
            | None \<Rightarrow> (case getargspec insp f of Inl e \<Rightarrow> Inl e | Inr a \<Rightarrow> argspec_sig a)) of
        Inl e \<Rightarrow> Inl e
      | Inr sig \<Rightarrow>
          Inr (join ''.'' ((if show_module then [m] else [])
                 @ (case owner_class of None \<Rightarrow> [] | Some c \<Rightarrow> if truthy c then [cn] else [])
                 @ (if n = ''__init__'' then [] else [n]))
               @ sig))
   \<and> (\<forall>ps. (\<forall>p\<in>set ps. pkind p \<noteq> POSITIONAL_ONLY \<and> pkind p \<noteq> KEYWORD_ONLY
                  \<and> pannotation p = None) \<longrightarrow>
        render_params False True ps =
          map (\<lambda>p. (if pkind p = VAR_POSITIONAL then ''*''
                     else if pkind p = VAR_KEYWORD then ''**'' else [])
                    @ pname p @ (case pdefault p of None \<Rightarrow> [] | Some d \<Rightarrow> ''='' @ d)) ps)
   \<and> (\<forall>a ds. ds = (case defaults a of None \<Rightarrow> [] | Some ds \<Rightarrow> ds) \<and> length ds \<le> length (args a) \<longrightarrow>
        argspec_sig a =
          Inr (''('' @ join '', ''
                (take (length (args a) - length ds) (args a)
                 @ map2 (\<lambda>x d. x @ ''='' @ d) (drop (length (args a) - length ds) (args a)) ds
                 @ (case varargs a of None \<Rightarrow> [] | Some v \<Rightarrow> if v \<noteq> [] then [''*'' @ v] else [])
                 @ (case varkw a of None \<Rightarrow> [] | Some k \<Rightarrow> if k \<noteq> [] then [''**'' @ k] else []))
               @ '')''))
   \<and> (n = ''f'' \<and> owner_class = None \<and> \<not> show_module
        \<and> (case signature insp of
              Some inspect_signature \<Rightarrow>
                inspect_signature f =
                  Inr \<lparr>parameters =
                         [\<lparr>pname = ''a'', pkind = POSITIONAL_OR_KEYWORD, pdefault = None,
                           pannotation = None\<rparr>,
                          \<lparr>pname = ''b'', pkind = POSITIONAL_OR_KEYWORD, pdefault = Some ''2'',
                           pannotation = None\<rparr>,
                          \<lparr>pname = ''args'', pkind = VAR_POSITIONAL, pdefault = None,
                           pannotation = None\<rparr>,
                          \<lparr>pname = ''kw'', pkind = VAR_KEYWORD, pdefault = None,
                           pannotation = None\<rparr>],
                       return_annotation = None\<rparr>
            | None \<Rightarrow> getargspec insp f =
                Inr \<lparr>args = [''a'', ''b''], varargs = Some ''args'', varkw = Some ''kw'',
                     defaults = Some [''2'']\<rparr>)
      \<longrightarrow> get_function_signature insp f owner_class show_module
            = Inr ''f(a, b=2, *args, **kw)'')"
proof (intro conjI allI impI)
  show "get_function_signature insp f owner_class show_module =
     (case (case signature insp of
              Some inspect_signature \<Rightarrow>
                (case inspect_signature f of
                   Inl e \<Rightarrow> Inl e
                 | Inr sg \<Rightarrow>
                     Inr (''('' @ join '', '' (render_params False True (parameters sg)) @ '')''
                          @ (case return_annotation sg of None \<Rightarrow> [] | Some a \<Rightarrow> '' -> '' @ a)))
            | None \<Rightarrow> (case getargspec insp f of Inl e \<Rightarrow> Inl e | Inr a \<Rightarrow> argspec_sig a)) of
        Inl e \<Rightarrow> Inl e
      | Inr sig \<Rightarrow>
          Inr (join ''.'' ((if show_module then [m] else [])
                 @ (case owner_class of None \<Rightarrow> [] | Some c \<Rightarrow> if truthy c then [cn] else [])
                 @ (if n = ''__init__'' then [] else [n]))
               @ sig))"
    using get_function_signature_named [OF assms, of insp] unfolding signature_str_def .
next
  fix ps :: "parameter list"
  assume a: "\<forall>p\<in>set ps. pkind p \<noteq> POSITIONAL_ONLY \<and> pkind p \<noteq> KEYWORD_ONLY
                  \<and> pannotation p = None"
  then have "render_params False True ps = map param_str ps"
    using render_params_plain [of ps True] by blast
  also have "map param_str ps =
          map (\<lambda>p. (if pkind p = VAR_POSITIONAL then ''*''
                     else if pkind p = VAR_KEYWORD then ''**'' else [])
                    @ pname p @ (case pdefault p of None \<Rightarrow> [] | Some d \<Rightarrow> ''='' @ d)) ps"
    using a by (intro map_cong refl param_str_plain) blast
  finally show "render_params False True ps =
          map (\<lambda>p. (if pkind p = VAR_POSITIONAL then ''*''
                     else if pkind p = VAR_KEYWORD then ''**'' else [])
                    @ pname p @ (case pdefault p of None \<Rightarrow> [] | Some d \<Rightarrow> ''='' @ d)) ps" .
next
  fix a :: argspec and ds
  assume "ds = (case defaults a of None \<Rightarrow> [] | Some ds \<Rightarrow> ds) \<and> length ds \<le> length (args a)"
  then show "argspec_sig a =
          Inr (''('' @ join '', ''
                (take (length (args a) - length ds) (args a)
                 @ map2 (\<lambda>x d. x @ ''='' @ d) (drop (length (args a) - length ds) (args a)) ds
                 @ (case varargs a of None \<Rightarrow> [] | Some v \<Rightarrow> if v \<noteq> [] then [''*'' @ v] else [])
                 @ (case varkw a of None \<Rightarrow> [] | Some k \<Rightarrow> if k \<noteq> [] then [''**'' @ k] else []))
               @ '')'')"
    using argspec_sig_rendered [of ds a] by blast
next
  assume ex: "n = ''f'' \<and> owner_class = None \<and> \<not> show_module
        \<and> (case signature insp of
              Some inspect_signature \<Rightarrow>
                inspect_signature f =
                  Inr \<lparr>parameters =
                         [\<lparr>pname = ''a'', pkind = POSITIONAL_OR_KEYWORD, pdefault = None,
                           pannotation = None\<rparr>,
                          \<lparr>pname = ''b'', pkind = POSITIONAL_OR_KEYWORD, pdefault = Some ''2'',
                           pannotation = None\<rparr>,
                          \<lparr>pname = ''args'', pkind = VAR_POSITIONAL, pdefault = None,
                           pannotation = None\<rparr>,
                          \<lparr>pname = ''kw'', pkind = VAR_KEYWORD, pdefault = None,
                           pannotation = None\<rparr>],
                       return_annotation = None\<rparr>
            | None \<Rightarrow> getargspec insp f =
                Inr \<lparr>args = [''a'', ''b''], varargs = Some ''args'', varkw = Some ''kw'',
                     defaults = Some [''2'']\<rparr>)"
  have p: "\<lparr>parameters =
                         [\<lparr>pname = ''a'', pkind = POSITIONAL_OR_KEYWORD, pdefault = None,
                           pannotation = None\<rparr>,
                          \<lparr>pname = ''b'', pkind = POSITIONAL_OR_KEYWORD, pdefault = Some ''2'',
                           pannotation = None\<rparr>,
                          \<lparr>pname = ''args'', pkind = VAR_POSITIONAL, pdefault = None,
                           pannotation = None\<rparr>,
                          \<lparr>pname = ''kw'', pkind = VAR_KEYWORD, pdefault = None,
                           pannotation = None\<rparr>],
                       return_annotation = None\<rparr>
      = \<lparr>parameters = example_params, return_annotation = None\<rparr>"
    by (simp add: example_params_def plain_def)
  from ex have "(case signature insp of
              Some inspect_signature \<Rightarrow>
                (case inspect_signature f of Inl e \<Rightarrow> Inl e | Inr sg \<Rightarrow> Inr (signature_str sg))
            | None \<Rightarrow> (case getargspec insp f of Inl e \<Rightarrow> Inl e | Inr a \<Rightarrow> argspec_sig a))
      = Inr ''(a, b=2, *args, **kw)''"
    using example_renderings unfolding p by (cases "signature insp") simp_all
  with ex show "get_function_signature insp f owner_class show_module
            = Inr ''f(a, b=2, *args, **kw)''"
    unfolding get_function_signature_named [OF assms] by simp
qed

theorem format_signature_witness:
  "name_attr example_function = Some ''f''
   \<and> get_function_signature example_inspect example_function None False
        = Inr ''f(a, b=2, *args, **kw)''
   \<and> get_function_signature example_inspect2 example_function None False
        = Inr ''f(a, b=2, *args, **kw)''
   \<and> get_function_signature example_inspect example_init (Some example_class) False
        = Inr ''C(self, a, b=2, *args, **kw)''"
proof -
  have n: "name_attr example_function = Some ''f''" by (rule example_attrs)
  have "get_function_signature example_inspect example_function None False
        = Inr ''f(a, b=2, *args, **kw)''"
    using format_signature [where f = example_function and n = "''f''"
        and show_module = False and owner_class = None and insp = example_inspect, OF n]
    by (simp add: example_inspect_def example_signature_def example_params_def plain_def
        param_str_def n)
  moreover have "get_function_signature example_inspect2 example_function None False
        = Inr ''f(a, b=2, *args, **kw)''"
    using format_signature [where f = example_function and n = "''f''"
        and show_module = False and owner_class = None and insp = example_inspect2, OF n]
    by (simp add: example_inspect2_def example_argspec_def n)
  moreover have "get_function_signature example_inspect example_init (Some example_class) False
        = Inr ''C(self, a, b=2, *args, **kw)''"
    using format_signature [where f = example_init and n = "''__init__''"
        and show_module = False and owner_class = "Some example_class" and cn = "''C''"
        and insp = example_inspect]
    by (simp add: example_inspect_def example_signature_def example_params_def plain_def
        param_str_def example_attrs)
  ultimately show ?thesis using n by (intro conjI)
qed

end
